theory Spec2Isabelle
  imports Complex_Main "HOL-Library.Word"
begin

unbundle bit_operations_syntax

section \<open>Data model of \<^verbatim>\<open>src/libserver/task.c\<close>\<close>

text \<open>
  Machine types: \<^verbatim>\<open>guint\<close> and \<^verbatim>\<open>gint\<close> are 32 bits wide, \<^verbatim>\<open>gsize\<close>,
  \<^verbatim>\<open>gulong\<close> and pointers are 64 bits wide. A pointer is its address.
\<close>

type_synonym guint = "32 word"
type_synonym gsize = "64 word"
type_synonym gpointer = "64 word"

text \<open>
  What the model does where C leaves the behaviour undefined: the function returns
  the fault instead of a value.
\<close>

datatype c_fault =
    Shift_Out_Of_Range nat
  | Index_Out_Of_Bounds nat nat
  | Null_Dereference
  | Conversion_Out_Of_Range

subsection \<open>Stages\<close>

text \<open>
  Modelled from the spec: \<^verbatim>\<open>enum rspamd_task_stage\<close> of \<^verbatim>\<open>task.h\<close> is not
  among the sources. Section 4.3 of the specification gives the ordered stage set
  \<^verbatim>\<open>READ_MESSAGE, PRE_FILTERS, FILTERS, CLASSIFIERS_PRE, CLASSIFIERS,
  CLASSIFIERS_POST, COMPOSITES, POST_FILTERS, LEARN_PRE, LEARN, LEARN_POST, DONE\<close>,
  each stage a distinct bit, the first one the lowest bit.
\<close>

definition RSPAMD_TASK_STAGE_READ_MESSAGE :: guint where
  "RSPAMD_TASK_STAGE_READ_MESSAGE = push_bit 0 1"

definition RSPAMD_TASK_STAGE_PRE_FILTERS :: guint where
  "RSPAMD_TASK_STAGE_PRE_FILTERS = push_bit 1 1"

definition RSPAMD_TASK_STAGE_FILTERS :: guint where
  "RSPAMD_TASK_STAGE_FILTERS = push_bit 2 1"

definition RSPAMD_TASK_STAGE_CLASSIFIERS_PRE :: guint where
  "RSPAMD_TASK_STAGE_CLASSIFIERS_PRE = push_bit 3 1"

definition RSPAMD_TASK_STAGE_CLASSIFIERS :: guint where
  "RSPAMD_TASK_STAGE_CLASSIFIERS = push_bit 4 1"

definition RSPAMD_TASK_STAGE_CLASSIFIERS_POST :: guint where
  "RSPAMD_TASK_STAGE_CLASSIFIERS_POST = push_bit 5 1"

definition RSPAMD_TASK_STAGE_COMPOSITES :: guint where
  "RSPAMD_TASK_STAGE_COMPOSITES = push_bit 6 1"

definition RSPAMD_TASK_STAGE_POST_FILTERS :: guint where
  "RSPAMD_TASK_STAGE_POST_FILTERS = push_bit 7 1"

definition RSPAMD_TASK_STAGE_LEARN_PRE :: guint where
  "RSPAMD_TASK_STAGE_LEARN_PRE = push_bit 8 1"

definition RSPAMD_TASK_STAGE_LEARN :: guint where
  "RSPAMD_TASK_STAGE_LEARN = push_bit 9 1"

definition RSPAMD_TASK_STAGE_LEARN_POST :: guint where
  "RSPAMD_TASK_STAGE_LEARN_POST = push_bit 10 1"

definition RSPAMD_TASK_STAGE_DONE :: guint where
  "RSPAMD_TASK_STAGE_DONE = push_bit 11 1"

text \<open>
  Modelled from the spec: \<^verbatim>\<open>RSPAMD_TASK_PROCESS_ALL\<close> (\<^verbatim>\<open>task.h\<close>) is the mask
  of all stages (\<^verbatim>\<open>advance(ALL_STAGES)\<close> in section 4.4).
\<close>

definition RSPAMD_TASK_PROCESS_ALL :: guint where
  "RSPAMD_TASK_PROCESS_ALL = mask 12"

subsection \<open>Flags, actions, errors\<close>

text \<open>
  Modelled from the spec: the \<^verbatim>\<open>RSPAMD_TASK_FLAG_*\<close> bits of \<^verbatim>\<open>task.h\<close> are
  not among the sources. The flag word is a bit set (section 3); the model keeps the
  set of the flags that are on, so \<^verbatim>\<open>flags |= F\<close> is \<open>insert F\<close>, \<^verbatim>\<open>flags & F\<close>
  is \<open>F \<in> flags\<close> and \<^verbatim>\<open>flags &= ~F\<close> is \<open>flags - {F}\<close>.
\<close>

datatype task_flag =
    RSPAMD_TASK_FLAG_PROCESSING
  | RSPAMD_TASK_FLAG_SKIP
  | RSPAMD_TASK_FLAG_EMPTY
  | RSPAMD_TASK_FLAG_HAS_CONTROL
  | RSPAMD_TASK_FLAG_FILE
  | RSPAMD_TASK_FLAG_MIME
  | RSPAMD_TASK_FLAG_JSON
  | RSPAMD_TASK_FLAG_NO_LOG
  | RSPAMD_TASK_FLAG_PASS_ALL
  | RSPAMD_TASK_FLAG_LEARN_SPAM
  | RSPAMD_TASK_FLAG_LEARN_HAM
  | RSPAMD_TASK_FLAG_LEARN_AUTO

text \<open>
  Modelled from the spec: \<^verbatim>\<open>enum rspamd_metric_action\<close> is declared outside the
  sources; the glossary names the actions, and \<^verbatim>\<open>METRIC_ACTION_MAX\<close> is the
  sentinel of an unset pre-result.
\<close>

datatype metric_action =
    METRIC_ACTION_REJECT
  | METRIC_ACTION_SOFT_REJECT
  | METRIC_ACTION_REWRITE_SUBJECT
  | METRIC_ACTION_ADD_HEADER
  | METRIC_ACTION_GREYLIST
  | METRIC_ACTION_NOACTION
  | METRIC_ACTION_MAX

datatype error_code = RSPAMD_PROTOCOL_ERROR | Other_Error_Code nat

text \<open>A \<^verbatim>\<open>GError\<close>: domain (the quark's string), code and message.\<close>

record gerror =
  domain :: string
  code :: error_code
  message :: string

definition rspamd_task_quark :: string where
  "rspamd_task_quark = ''task-error''"

subsection \<open>Addresses, symbols, results\<close>

text \<open>
  \<^verbatim>\<open>struct rspamd_email_address\<close>: \<^verbatim>\<open>addr\<close> may be \<^verbatim>\<open>NULL\<close>; the \<^verbatim>\<open>addr_len\<close>
  bytes it points to are the string.
\<close>

record rspamd_email_address =
  addr :: "string option"

text \<open>
  An element of a GMime \<^verbatim>\<open>InternetAddressList\<close>: a mailbox with its address, or
  another kind of address (a group).
\<close>

datatype internet_address = IA_Mailbox string | IA_Group

text \<open>\<^verbatim>\<open>struct symbol\<close>: score, name (may be \<^verbatim>\<open>NULL\<close>) and the option list.\<close>

record symbol =
  score :: real
  name :: "string option"
  options :: "string list"

text \<open>
  \<^verbatim>\<open>struct metric_result\<close>. The symbol table is a hash table; the model keeps the
  symbols in the order in which \<^verbatim>\<open>g_hash_table_iter_next\<close> delivers them.
\<close>

record metric_result =
  mres_score :: real
  mres_action :: metric_action
  actions_limits :: "metric_action \<Rightarrow> real"
  symbols :: "symbol list"

typedecl rspamd_inet_addr_t

text \<open>The fields of \<^verbatim>\<open>struct rspamd_config\<close> that \<^verbatim>\<open>task.c\<close> reads.\<close>

record rspamd_config =
  check_all_filters :: bool
  clock_res :: int

subsection \<open>The task\<close>

text \<open>A token \<^verbatim>\<open>rspamd_ftok_t\<close> used as a window into memory: address and length.\<close>

record ftok_window =
  wbegin :: gpointer
  wlen :: gsize

text \<open>\<^verbatim>\<open>struct rspamd_task_map\<close>, the argument of the unmapper destructor.\<close>

record rspamd_task_map =
  map_begin :: gpointer
  map_len :: gsize

text \<open>
  Calls that leave the task engine, in the order they are made: the stage handlers
  and the system calls that release a resource. The task carries this list as a
  ghost field, so that "no handler was invoked" is a statement about the state.
\<close>

datatype ext_call =
    Call_message_parse
  | Call_pre_filters
  | Call_process_symbols
  | Call_stat_classify guint
  | Call_make_composites
  | Call_post_filters
  | Call_check_autolearn
  | Call_stat_learn guint
  | Call_handle_headers
  | Call_handle_control
  | Sys_close nat
  | Sys_munmap gpointer gsize

text \<open>
  The fields of \<^verbatim>\<open>struct rspamd_task\<close> that \<^verbatim>\<open>task.c\<close> reads or writes in the
  functions modelled here. \<^verbatim>\<open>request_headers\<close> is the case-insensitive hash table,
  given by its lookup on the lower-case key. \<^verbatim>\<open>pool_variables\<close> and
  \<^verbatim>\<open>pool_destructors\<close> are the variables and the destructors of \<^verbatim>\<open>task_pool\<close>
  (the latest destructor first). \<^verbatim>\<open>results\<close> is the hash table of metric results.
\<close>

record rspamd_task =
  flags :: "task_flag set"
  processed_stages :: guint
  pre_result_action :: metric_action
  err :: "gerror option"
  msg :: ftok_window
  message_len :: gsize
  request_headers :: "string \<Rightarrow> string option"
  pool_variables :: "string \<Rightarrow> string option"
  pool_destructors :: "rspamd_task_map list"
  deliver_to :: "string option"
  from_envelope :: "rspamd_email_address option"
  rcpt_envelope :: "rspamd_email_address list option"
  from_mime :: "internet_address list option"
  rcpt_mime :: "internet_address list option"
  message_id :: "string option"
  queue_id :: "string option"
  user :: "string option"
  from_addr :: "rspamd_inet_addr_t option"
  dns_requests :: guint
  time_real :: real
  time_virtual :: real
  cfg :: "rspamd_config option"
  results :: "string \<Rightarrow> metric_result option"
  classifier :: "string option"
  checkpoint :: "nat option"
  calls :: "ext_call list"

text \<open>
  Modelled from the spec: the macros \<^verbatim>\<open>RSPAMD_TASK_IS_PROCESSED\<close>,
  \<^verbatim>\<open>RSPAMD_TASK_IS_SKIPPED\<close> and \<^verbatim>\<open>RSPAMD_TASK_IS_EMPTY\<close> of \<^verbatim>\<open>task.h\<close>: the
  terminal bit of the stage bitmap, the skipped flag, the empty-message flag.
\<close>

definition RSPAMD_TASK_IS_PROCESSED :: "rspamd_task \<Rightarrow> bool" where
  "RSPAMD_TASK_IS_PROCESSED task \<longleftrightarrow> processed_stages task AND RSPAMD_TASK_STAGE_DONE \<noteq> 0"

definition RSPAMD_TASK_IS_SKIPPED :: "rspamd_task \<Rightarrow> bool" where
  "RSPAMD_TASK_IS_SKIPPED task \<longleftrightarrow> RSPAMD_TASK_FLAG_SKIP \<in> flags task"

definition RSPAMD_TASK_IS_EMPTY :: "rspamd_task \<Rightarrow> bool" where
  "RSPAMD_TASK_IS_EMPTY task \<longleftrightarrow> RSPAMD_TASK_FLAG_EMPTY \<in> flags task"

text \<open>
  \<^verbatim>\<open>rspamd_task_new\<close>: the task is allocated zeroed; the flags, the pre-result
  sentinel and the identifiers are set. The two tick counters are read from the clock
  and are arguments here.
\<close>

definition rspamd_task_new :: "rspamd_config option \<Rightarrow> real \<Rightarrow> real \<Rightarrow> rspamd_task" where
  "rspamd_task_new cfg_p ticks vticks =
     \<lparr>flags =
        (case cfg_p of
           Some c \<Rightarrow> (if check_all_filters c then {RSPAMD_TASK_FLAG_PASS_ALL} else {})
         | None \<Rightarrow> {})
        \<union> {RSPAMD_TASK_FLAG_MIME, RSPAMD_TASK_FLAG_JSON},
      processed_stages = 0,
      pre_result_action = METRIC_ACTION_MAX,
      err = None,
      msg = \<lparr>wbegin = 0, wlen = 0\<rparr>,
      message_len = 0,
      request_headers = (\<lambda>k. None),
      pool_variables = (\<lambda>k. None),
      pool_destructors = [],
      deliver_to = None,
      from_envelope = None,
      rcpt_envelope = None,
      from_mime = None,
      rcpt_mime = None,
      message_id = Some ''undef'',
      queue_id = Some ''undef'',
      user = None,
      from_addr = None,
      dns_requests = 0,
      time_real = ticks,
      time_virtual = vticks,
      cfg = cfg_p,
      results = (\<lambda>k. None),
      classifier = None,
      checkpoint = None,
      calls = []\<rparr>"

section \<open>The stage selector\<close>

text \<open>
  The loop \<^verbatim>\<open>for (st = 1; mask != 1; st ++) mask = (unsigned int)mask >> 1;\<close> of
  \<^verbatim>\<open>rspamd_task_select_processing_stage\<close>. It does not end when \<^verbatim>\<open>mask\<close> is 0;
  the caller enters it with a non-zero mask only.
\<close>

partial_function (option) stage_shift_loop :: "guint \<Rightarrow> nat \<Rightarrow> nat option" where
  "stage_shift_loop mask_v st =
     (if mask_v = 1 then Some st else stage_shift_loop (drop_bit 1 mask_v) (st + 1))"

text \<open>
  \<^verbatim>\<open>rspamd_task_select_processing_stage\<close>. The shift \<^verbatim>\<open>1 << st\<close> is on a 32-bit
  signed \<^verbatim>\<open>int\<close>: it is undefined from \<^verbatim>\<open>st = 31\<close> on. \<^verbatim>\<open>st < RSPAMD_TASK_STAGE_DONE\<close>
  compares signed integers. The result is the selected stage and the task, whose
  bitmap has the skipped stages marked.
\<close>

partial_function (option) rspamd_task_select_processing_stage ::
    "rspamd_task \<Rightarrow> guint \<Rightarrow> (c_fault + guint \<times> rspamd_task) option" where
  "rspamd_task_select_processing_stage task stages =
     Option.bind
       (if processed_stages task = 0 then Some 0
        else stage_shift_loop (processed_stages task) 1)
       (\<lambda>st.
          if 31 \<le> st then Some (Inl (Shift_Out_Of_Range st))
          else if stages AND push_bit st 1 \<noteq> 0 then Some (Inr (push_bit st 1, task))
          else if push_bit st 1 <s RSPAMD_TASK_STAGE_DONE then
            rspamd_task_select_processing_stage
              (task\<lparr>processed_stages := processed_stages task OR push_bit st 1\<rparr>) stages
          else Some (Inr (RSPAMD_TASK_STAGE_DONE, task)))"

section \<open>The pipeline engine\<close>

text \<open>
  The collaborators of \<^verbatim>\<open>rspamd_task_process\<close> live outside \<^verbatim>\<open>task.c\<close>: the
  parser, the scripted filters, the symbol cache, the statistics module and the event
  session. Each takes the task and may change it; the model takes them as arguments.
  \<^verbatim>\<open>rspamd_stat_learn\<close> returns its verdict and the error it stored through its last
  argument.
\<close>

datatype rspamd_stat_result =
    RSPAMD_STAT_PROCESS_ERROR
  | RSPAMD_STAT_PROCESS_DELAYED
  | RSPAMD_STAT_PROCESS_OK

record stage_handlers =
  rspamd_message_parse :: "rspamd_task \<Rightarrow> bool \<times> rspamd_task"
  rspamd_lua_call_pre_filters :: "rspamd_task \<Rightarrow> rspamd_task"
  rspamd_symbols_cache_process_symbols :: "rspamd_task \<Rightarrow> bool \<times> rspamd_task"
  rspamd_stat_classify :: "guint \<Rightarrow> rspamd_task \<Rightarrow> rspamd_stat_result \<times> rspamd_task"
  rspamd_make_composites :: "rspamd_task \<Rightarrow> rspamd_task"
  rspamd_lua_call_post_filters :: "rspamd_task \<Rightarrow> rspamd_task"
  rspamd_stat_check_autolearn :: "rspamd_task \<Rightarrow> rspamd_task"
  rspamd_stat_learn ::
    "bool \<Rightarrow> string option \<Rightarrow> guint \<Rightarrow> rspamd_task \<Rightarrow> (bool \<times> gerror option) \<times> rspamd_task"
  rspamd_session_events_pending :: "rspamd_task \<Rightarrow> guint"

definition note_call :: "ext_call \<Rightarrow> rspamd_task \<Rightarrow> rspamd_task" where
  "note_call c task = task\<lparr>calls := calls task @ [c]\<rparr>"

definition set_stage_done :: "rspamd_task \<Rightarrow> rspamd_task" where
  "set_stage_done task =
     task\<lparr>processed_stages := processed_stages task OR RSPAMD_TASK_STAGE_DONE\<rparr>"

text \<open>
  The \<^verbatim>\<open>switch (st)\<close> of \<^verbatim>\<open>rspamd_task_process\<close>: the value of \<^verbatim>\<open>ret\<close> after it
  and the task. Three branches read through \<^verbatim>\<open>task->cfg\<close> to build the arguments of
  their call (\<^verbatim>\<open>task->cfg->cache\<close> in \<^verbatim>\<open>rspamd_process_filters\<close>,
  \<^verbatim>\<open>task->cfg->lua_state\<close> for the classifier and for the learner): with no
  configuration that read is a fault, and the call is not made.
\<close>

definition rspamd_task_process_switch ::
    "stage_handlers \<Rightarrow> guint \<Rightarrow> rspamd_task \<Rightarrow> c_fault + bool \<times> rspamd_task" where
  "rspamd_task_process_switch h st task =
     (if st = RSPAMD_TASK_STAGE_READ_MESSAGE then
        (case rspamd_message_parse h (note_call Call_message_parse task) of
           (ok, task1) \<Rightarrow> (if \<not> ok then Inr (False, task1) else Inr (True, task1)))
      else if st = RSPAMD_TASK_STAGE_PRE_FILTERS then
        Inr (True, rspamd_lua_call_pre_filters h (note_call Call_pre_filters task))
      else if st = RSPAMD_TASK_STAGE_FILTERS then
        (case cfg task of
           None \<Rightarrow> Inl Null_Dereference
         | Some c \<Rightarrow>
             (case rspamd_symbols_cache_process_symbols h (note_call Call_process_symbols task) of
                (ok, task1) \<Rightarrow> (if \<not> ok then Inr (False, task1) else Inr (True, task1))))
      else if st = RSPAMD_TASK_STAGE_CLASSIFIERS \<or> st = RSPAMD_TASK_STAGE_CLASSIFIERS_PRE
              \<or> st = RSPAMD_TASK_STAGE_CLASSIFIERS_POST then
        (if \<not> RSPAMD_TASK_IS_EMPTY task then
           (case cfg task of
              None \<Rightarrow> Inl Null_Dereference
            | Some c \<Rightarrow>
                Inr (True, snd (rspamd_stat_classify h st (note_call (Call_stat_classify st) task))))
         else Inr (True, task))
      else if st = RSPAMD_TASK_STAGE_COMPOSITES then
        Inr (True, rspamd_make_composites h (note_call Call_make_composites task))
      else if st = RSPAMD_TASK_STAGE_POST_FILTERS then
        (let task1 = rspamd_lua_call_post_filters h (note_call Call_post_filters task) in
         if RSPAMD_TASK_FLAG_LEARN_AUTO \<in> flags task1 \<and> \<not> RSPAMD_TASK_IS_EMPTY task1 then
           Inr (True, rspamd_stat_check_autolearn h (note_call Call_check_autolearn task1))
         else Inr (True, task1))
      else if st = RSPAMD_TASK_STAGE_LEARN \<or> st = RSPAMD_TASK_STAGE_LEARN_PRE
              \<or> st = RSPAMD_TASK_STAGE_LEARN_POST then
        (if RSPAMD_TASK_FLAG_LEARN_SPAM \<in> flags task \<or> RSPAMD_TASK_FLAG_LEARN_HAM \<in> flags task then
           (if err task = None then
              (case cfg task of
                 None \<Rightarrow> Inl Null_Dereference
               | Some c \<Rightarrow>
                   (case rspamd_stat_learn h (RSPAMD_TASK_FLAG_LEARN_SPAM \<in> flags task)
                           (classifier task) st (note_call (Call_stat_learn st) task) of
                      ((ok, stat_error), task1) \<Rightarrow>
                        (if \<not> ok then
                           Inr (True,
                                set_stage_done
                                  (if RSPAMD_TASK_FLAG_LEARN_AUTO \<notin> flags task1
                                   then task1\<lparr>err := stat_error\<rparr> else task1))
                         else Inr (True, task1))))
            else Inr (True, task))
         else Inr (True, task))
      else if st = RSPAMD_TASK_STAGE_DONE then Inr (True, set_stage_done task)
      else Inr (True, task))"

text \<open>
  \<^verbatim>\<open>rspamd_task_process\<close>. The tail call at its end makes it a loop, which the
  handlers may keep running for ever: the result \<open>None\<close> is the call that does not
  return. A result \<open>Some (Inr (ret, task))\<close> is the returned \<^verbatim>\<open>gboolean\<close> and the
  task as the call leaves it.
\<close>

partial_function (option) rspamd_task_process ::
    "stage_handlers \<Rightarrow> rspamd_task \<Rightarrow> guint \<Rightarrow> (c_fault + bool \<times> rspamd_task) option" where
  "rspamd_task_process h task stages =
     (if RSPAMD_TASK_FLAG_PROCESSING \<in> flags task then Some (Inr (True, task))
      else if RSPAMD_TASK_IS_PROCESSED task then Some (Inr (True, task))
      else if pre_result_action task \<noteq> METRIC_ACTION_MAX then
        Some (Inr (True, set_stage_done task))
      else
        (case rspamd_task_select_processing_stage
                (task\<lparr>flags := insert RSPAMD_TASK_FLAG_PROCESSING (flags task)\<rparr>) stages of
           None \<Rightarrow> None
         | Some (Inl fault) \<Rightarrow> Some (Inl fault)
         | Some (Inr (st, task1)) \<Rightarrow>
             (case rspamd_task_process_switch h st task1 of
                Inl fault \<Rightarrow> Some (Inl fault)
              | Inr (ret, task2) \<Rightarrow>
                  (let task3 = (if RSPAMD_TASK_IS_SKIPPED task2 then set_stage_done task2 else task2);
                       task4 = task3\<lparr>flags := flags task3 - {RSPAMD_TASK_FLAG_PROCESSING}\<rparr>
                   in
                     if \<not> ret \<or> RSPAMD_TASK_IS_PROCESSED task4 then
                       Some (Inr (ret, if \<not> ret then set_stage_done task4 else task4))
                     else if rspamd_session_events_pending h task4 \<noteq> 0 then
                       Some (Inr (ret, task4))
                     else
                       rspamd_task_process h
                         (task4\<lparr>processed_stages := processed_stages task4 OR st,
                                checkpoint := None\<rparr>)
                         stages))))"

text \<open>
  \<^verbatim>\<open>rspamd_task_fin\<close>, with the reply (the finalize callback or the protocol writer)
  left to the caller: the result is the returned \<^verbatim>\<open>gboolean\<close>, whether the reply was
  written, and the task.
\<close>

definition rspamd_task_fin ::
    "stage_handlers \<Rightarrow> rspamd_task \<Rightarrow> (c_fault + bool \<times> bool \<times> rspamd_task) option" where
  "rspamd_task_fin h task =
     (if RSPAMD_TASK_IS_PROCESSED task then Some (Inr (True, True, task))
      else
        (case rspamd_task_process h task RSPAMD_TASK_PROCESS_ALL of
           None \<Rightarrow> None
         | Some (Inl fault) \<Rightarrow> Some (Inl fault)
         | Some (Inr (ok, task1)) \<Rightarrow>
             (if \<not> ok then Some (Inr (True, True, task1))
              else if RSPAMD_TASK_IS_PROCESSED task1 then Some (Inr (True, True, task1))
              else Some (Inr (False, False, task1)))))"

section \<open>The message loader\<close>

typedecl rspamd_http_message

typedecl ucl_object_t

text \<open>
  What \<^verbatim>\<open>rspamd_task_load_message\<close> calls outside \<^verbatim>\<open>task.c\<close>. A system call
  returns \<open>Inl\<close> with the text of \<^verbatim>\<open>strerror (errno)\<close> when it fails. \<^verbatim>\<open>os_fstat\<close> and
  \<^verbatim>\<open>os_stat\<close> give \<^verbatim>\<open>st_size\<close>, \<^verbatim>\<open>os_mmap\<close> takes the length and the descriptor.
  \<^verbatim>\<open>rspamd_strtoul\<close> takes the token and the value its result argument holds before
  the call, and gives the value it holds after (the code ignores the returned flag).
  \<^verbatim>\<open>ucl_parser_add_chunk\<close> stands for the parser run on the chunk at an address with a
  length: the parsed object, or \<open>None\<close> when parsing fails.
\<close>

record loader_env =
  rspamd_protocol_handle_headers :: "rspamd_http_message \<Rightarrow> rspamd_task \<Rightarrow> rspamd_task"
  rspamd_decode_url :: "string \<Rightarrow> string"
  os_shm_open :: "string \<Rightarrow> string + nat"
  os_fstat :: "nat \<Rightarrow> string + gsize"
  os_stat :: "string \<Rightarrow> string + gsize"
  os_open :: "string \<Rightarrow> string + nat"
  os_mmap :: "gsize \<Rightarrow> nat \<Rightarrow> string + gpointer"
  rspamd_strtoul :: "string \<Rightarrow> gsize \<Rightarrow> gsize"
  ucl_parser_add_chunk :: "gpointer \<Rightarrow> guint \<Rightarrow> ucl_object_t option"
  rspamd_protocol_handle_control :: "ucl_object_t \<Rightarrow> rspamd_task \<Rightarrow> rspamd_task"

text \<open>
  \<^verbatim>\<open>g_set_error (&task->err, ...)\<close> of GLib stores the new error when the slot is
  empty and leaves an error that is already there.
\<close>

definition g_set_error :: "rspamd_task \<Rightarrow> string \<Rightarrow> error_code \<Rightarrow> string \<Rightarrow> rspamd_task" where
  "g_set_error task quark c m =
     (case err task of
        None \<Rightarrow> task\<lparr>err := Some \<lparr>domain = quark, code = c, message = m\<rparr>\<rparr>
      | Some e \<Rightarrow> task)"

definition PATH_MAX :: nat where
  "PATH_MAX = 4096"

text \<open>The bytes of a C string: up to the first \<^verbatim>\<open>NUL\<close>.\<close>

definition c_str :: "string \<Rightarrow> string" where
  "c_str s = takeWhile (\<lambda>c. c \<noteq> CHR 0x00) s"

text \<open>
  The path of the \<^verbatim>\<open>shm\<close>, \<^verbatim>\<open>file\<close> or \<^verbatim>\<open>path\<close> header: copied into
  \<^verbatim>\<open>filepath[PATH_MAX]\<close> by \<^verbatim>\<open>rspamd_strlcpy\<close> with the size
  \<^verbatim>\<open>MIN (sizeof (filepath), tok->len + 1)\<close>, URL-decoded in place, and stripped of its
  first and last byte when it starts with a double quote and is longer than two bytes.
\<close>

definition task_filepath :: "loader_env \<Rightarrow> string \<Rightarrow> string" where
  "task_filepath env tok =
     (let copied = c_str (take (min PATH_MAX (length tok + 1) - 1) tok);
          filepath = c_str (rspamd_decode_url env copied);
          flen = length filepath
      in if take 1 filepath = [CHR 0x22] \<and> flen > 2
         then take (flen - 2) (drop 1 filepath)
         else filepath)"

text \<open>The branch of \<^verbatim>\<open>rspamd_task_load_message\<close> for the \<^verbatim>\<open>shm\<close> header.\<close>

definition rspamd_task_load_shm :: "loader_env \<Rightarrow> rspamd_task \<Rightarrow> string \<Rightarrow> bool \<times> rspamd_task" where
  "rspamd_task_load_shm env task tok =
     (let fp = task_filepath env tok in
      case os_shm_open env fp of
        Inl e \<Rightarrow>
          (False, g_set_error task rspamd_task_quark RSPAMD_PROTOCOL_ERROR
                    (''Cannot open shm segment ('' @ fp @ ''): '' @ e))
      | Inr fd \<Rightarrow>
          (case os_fstat env fd of
             Inl e \<Rightarrow>
               (False, note_call (Sys_close fd)
                  (g_set_error task rspamd_task_quark RSPAMD_PROTOCOL_ERROR
                     (''Cannot stat shm segment ('' @ fp @ ''): '' @ e)))
           | Inr st_size \<Rightarrow>
               (case os_mmap env st_size fd of
                  Inl e \<Rightarrow>
                    (False, g_set_error (note_call (Sys_close fd) task) rspamd_task_quark
                       RSPAMD_PROTOCOL_ERROR (''Cannot mmap file ('' @ fp @ ''): '' @ e))
                | Inr map_p \<Rightarrow>
                    (let task1 = note_call (Sys_close fd) task;
                         offset = (case request_headers task1 ''shm-offset'' of
                                     Some t \<Rightarrow> rspamd_strtoul env t 0
                                   | None \<Rightarrow> 0)
                     in
                       if request_headers task1 ''shm-offset'' \<noteq> None \<and> offset > st_size then
                         (False, note_call (Sys_munmap map_p st_size) task1)
                       else
                         (let shmem_size = (case request_headers task1 ''shm-length'' of
                                              Some t \<Rightarrow> rspamd_strtoul env t st_size
                                            | None \<Rightarrow> st_size)
                          in
                            if request_headers task1 ''shm-length'' \<noteq> None \<and> shmem_size > st_size then
                              (False, note_call (Sys_munmap map_p st_size) task1)
                            else
                              (True,
                               task1\<lparr>msg := \<lparr>wbegin = map_p + offset, wlen = shmem_size\<rparr>,
                                   flags := insert RSPAMD_TASK_FLAG_FILE (flags task1),
                                   pool_destructors :=
                                     \<lparr>map_begin = map_p, map_len = st_size\<rparr> # pool_destructors task1\<rparr>))))))"

text \<open>The branch for the \<^verbatim>\<open>file\<close> or \<^verbatim>\<open>path\<close> header.\<close>

definition rspamd_task_load_file :: "loader_env \<Rightarrow> rspamd_task \<Rightarrow> string \<Rightarrow> bool \<times> rspamd_task" where
  "rspamd_task_load_file env task tok =
     (let fp = task_filepath env tok in
      case os_stat env fp of
        Inl e \<Rightarrow>
          (False, g_set_error task rspamd_task_quark RSPAMD_PROTOCOL_ERROR
                    (''Invalid file ('' @ fp @ ''): '' @ e))
      | Inr st_size \<Rightarrow>
          (case os_open env fp of
             Inl e \<Rightarrow>
               (False, g_set_error task rspamd_task_quark RSPAMD_PROTOCOL_ERROR
                         (''Cannot open file ('' @ fp @ ''): '' @ e))
           | Inr fd \<Rightarrow>
               (case os_mmap env st_size fd of
                  Inl e \<Rightarrow>
                    (False, g_set_error (note_call (Sys_close fd) task) rspamd_task_quark
                       RSPAMD_PROTOCOL_ERROR (''Cannot mmap file ('' @ fp @ ''): '' @ e))
                | Inr map_p \<Rightarrow>
                    (let task1 = note_call (Sys_close fd) task in
                       (True,
                        task1\<lparr>msg := \<lparr>wbegin = map_p, wlen = st_size\<rparr>,
                            flags := insert RSPAMD_TASK_FLAG_FILE (flags task1),
                            pool_destructors :=
                              \<lparr>map_begin = map_p, map_len = st_size\<rparr> # pool_destructors task1\<rparr>)))))"

text \<open>
  The branch for plain data. \<^verbatim>\<open>control_len\<close> is a \<^verbatim>\<open>guint\<close>: the difference of
  the two lengths is cut to 32 bits.
\<close>

definition rspamd_task_load_plain ::
    "loader_env \<Rightarrow> rspamd_task \<Rightarrow> gpointer \<Rightarrow> gsize \<Rightarrow> bool \<times> rspamd_task" where
  "rspamd_task_load_plain env task start len =
     (let task1 = task\<lparr>msg := \<lparr>wbegin = start, wlen = len\<rparr>\<rparr>;
          task2 = (if wlen (msg task1) = 0
                   then task1\<lparr>flags := insert RSPAMD_TASK_FLAG_EMPTY (flags task1)\<rparr>
                   else task1)
      in
        if RSPAMD_TASK_FLAG_HAS_CONTROL \<in> flags task2 then
          (if wlen (msg task2) < message_len task2 then
             (False, g_set_error task2 rspamd_task_quark RSPAMD_PROTOCOL_ERROR ''Invalid length'')
           else
             (let control_len = (ucast (wlen (msg task2) - message_len task2) :: guint) in
                if control_len > 0 then
                  (let task3 =
                         (case ucl_parser_add_chunk env (wbegin (msg task2)) control_len of
                            None \<Rightarrow> task2
                          | Some control_obj \<Rightarrow>
                              rspamd_protocol_handle_control env control_obj
                                (note_call Call_handle_control task2))
                   in
                     (True,
                      task3\<lparr>msg := \<lparr>wbegin = wbegin (msg task3) + ucast control_len,
                                     wlen = wlen (msg task3) - ucast control_len\<rparr>\<rparr>))
                else (True, task2)))
        else (True, task2))"

text \<open>The first step of \<^verbatim>\<open>rspamd_task_load_message\<close>: \<^verbatim>\<open>if (msg) ...handle_headers\<close>.\<close>

definition rspamd_task_load_headers ::
    "loader_env \<Rightarrow> rspamd_task \<Rightarrow> rspamd_http_message option \<Rightarrow> rspamd_task" where
  "rspamd_task_load_headers env task msg_p =
     (case msg_p of
        Some m \<Rightarrow> rspamd_protocol_handle_headers env m (note_call Call_handle_headers task)
      | None \<Rightarrow> task)"

text \<open>\<^verbatim>\<open>rspamd_task_load_message\<close>: the returned \<^verbatim>\<open>gboolean\<close> and the task.\<close>

definition rspamd_task_load_message ::
    "loader_env \<Rightarrow> rspamd_task \<Rightarrow> rspamd_http_message option \<Rightarrow> gpointer \<Rightarrow> gsize
       \<Rightarrow> bool \<times> rspamd_task" where
  "rspamd_task_load_message env task0 msg_p start len =
     (let task = rspamd_task_load_headers env task0 msg_p in
      case request_headers task ''shm'' of
        Some tok \<Rightarrow> rspamd_task_load_shm env task tok
      | None \<Rightarrow>
          (case (case request_headers task ''file'' of
                   None \<Rightarrow> request_headers task ''path''
                 | Some tok \<Rightarrow> Some tok) of
             Some tok \<Rightarrow> rspamd_task_load_file env task tok
           | None \<Rightarrow> rspamd_task_load_plain env task start len))"

section \<open>The principal recipient\<close>

text \<open>
  Modelled from the spec: \<^verbatim>\<open>rspamd_str_lc\<close> is defined outside the sources; the
  returned value is a "lowercased copy" (section 4.5): the letters A to Z are mapped to
  a to z, every other byte is kept.
\<close>

definition rspamd_str_lc :: "string \<Rightarrow> string" where
  "rspamd_str_lc s =
     map (\<lambda>c. if 65 \<le> (of_char c :: nat) \<and> (of_char c :: nat) \<le> 90
              then char_of ((of_char c :: nat) + 32) else c) s"

text \<open>
  \<^verbatim>\<open>g_ptr_array_index (array, i)\<close> is a macro that reads \<^verbatim>\<open>pdata[i]\<close> unchecked: a
  read beyond the length is a fault. \<^verbatim>\<open>internet_address_list_get_address\<close> of GMime
  checks the index and returns \<^verbatim>\<open>NULL\<close> out of range.
\<close>

definition g_ptr_array_index :: "'a list \<Rightarrow> nat \<Rightarrow> c_fault + 'a" where
  "g_ptr_array_index array i =
     (if i < length array then Inr (array ! i) else Inl (Index_Out_Of_Bounds i (length array)))"

definition internet_address_list_get_address :: "internet_address list \<Rightarrow> int \<Rightarrow> internet_address option" where
  "internet_address_list_get_address ialist i =
     (if 0 \<le> i \<and> i < int (length ialist) then Some (ialist ! nat i) else None)"

text \<open>
  \<^verbatim>\<open>rspamd_task_cache_principal_recipient\<close>: the copy of at most \<^verbatim>\<open>len\<close> bytes of the
  C string, in lower case, stored in the pool variable \<^verbatim>\<open>recipient\<close>.
\<close>

definition rspamd_task_cache_principal_recipient ::
    "rspamd_task \<Rightarrow> string option \<Rightarrow> nat \<Rightarrow> string option \<times> rspamd_task" where
  "rspamd_task_cache_principal_recipient task rcpt len =
     (case rcpt of
        None \<Rightarrow> (None, task)
      | Some r \<Rightarrow>
          (let rcpt_lc = rspamd_str_lc (c_str (take len r)) in
             (Some rcpt_lc,
              task\<lparr>pool_variables := (pool_variables task)(''recipient'' \<mapsto> rcpt_lc)\<rparr>)))"

text \<open>
  \<^verbatim>\<open>rspamd_task_get_principal_recipient\<close>, with the \<^verbatim>\<open>GMIME24\<close> branch of the
  preprocessor (the rest of the file uses that interface unconditionally).
\<close>

definition rspamd_task_get_principal_recipient ::
    "rspamd_task \<Rightarrow> c_fault + string option \<times> rspamd_task" where
  "rspamd_task_get_principal_recipient task =
     (case pool_variables task ''recipient'' of
        Some val \<Rightarrow> Inr (Some val, task)
      | None \<Rightarrow>
          (case deliver_to task of
             Some d \<Rightarrow> Inr (rspamd_task_cache_principal_recipient task (Some d) (length (c_str d)))
           | None \<Rightarrow>
               (case (case rcpt_envelope task of
                        None \<Rightarrow> Inr None
                      | Some array \<Rightarrow>
                          (case g_ptr_array_index array 0 of
                             Inl fault \<Rightarrow> Inl fault
                           | Inr a \<Rightarrow> Inr (addr a))) of
                  Inl fault \<Rightarrow> Inl fault
                | Inr (Some s) \<Rightarrow>
                    Inr (rspamd_task_cache_principal_recipient task (Some s) (length s))
                | Inr None \<Rightarrow>
                    (case (case rcpt_mime task of
                             None \<Rightarrow> None
                           | Some ialist \<Rightarrow> internet_address_list_get_address ialist 0) of
                       Some (IA_Mailbox val) \<Rightarrow>
                         Inr (rspamd_task_cache_principal_recipient task (Some val)
                                (length (c_str val)))
                     | Some IA_Group \<Rightarrow> Inr (None, task)
                     | None \<Rightarrow> Inr (None, task)))))"

section \<open>The log formatter\<close>

text \<open>
  Modelled from the spec: \<^verbatim>\<open>enum rspamd_log_format_type\<close>, the log format flags and
  \<^verbatim>\<open>struct rspamd_log_format\<close> are declared outside the sources (\<^verbatim>\<open>cfg.h\<close>). The
  types are the ones \<^verbatim>\<open>task.c\<close> names (the table of section 4.6); \<^verbatim>\<open>data\<close> of a
  variable item is the content template, or \<^verbatim>\<open>NULL\<close>.
\<close>

datatype rspamd_log_format_type =
    RSPAMD_LOG_STRING
  | RSPAMD_LOG_LUA
  | RSPAMD_LOG_MID
  | RSPAMD_LOG_QID
  | RSPAMD_LOG_USER
  | RSPAMD_LOG_ISSPAM
  | RSPAMD_LOG_ACTION
  | RSPAMD_LOG_SCORES
  | RSPAMD_LOG_SYMBOLS
  | RSPAMD_LOG_IP
  | RSPAMD_LOG_LEN
  | RSPAMD_LOG_DNS_REQ
  | RSPAMD_LOG_SMTP_FROM
  | RSPAMD_LOG_MIME_FROM
  | RSPAMD_LOG_SMTP_RCPT
  | RSPAMD_LOG_MIME_RCPT
  | RSPAMD_LOG_SMTP_RCPTS
  | RSPAMD_LOG_MIME_RCPTS
  | RSPAMD_LOG_TIME_REAL
  | RSPAMD_LOG_TIME_VIRTUAL

datatype rspamd_log_format_flag =
    RSPAMD_LOG_FLAG_CONDITION
  | RSPAMD_LOG_FLAG_SYMBOLS_SCORES
  | RSPAMD_LOG_FLAG_SYMBOLS_PARAMS

record rspamd_log_format =
  lf_type :: rspamd_log_format_type
  lf_flags :: "rspamd_log_format_flag set"
  lf_data :: "string option"

text \<open>
  Functions of other modules that the formatter calls. \<^verbatim>\<open>printf_double2\<close> is the
  rendering of a \<^verbatim>\<open>double\<close> by the format \<^verbatim>\<open>%.2f\<close>.
\<close>

record log_env =
  rspamd_action_to_str :: "metric_action \<Rightarrow> string"
  printf_double2 :: "real \<Rightarrow> string"
  rspamd_ip_is_valid :: "rspamd_inet_addr_t \<Rightarrow> bool"
  rspamd_inet_address_to_string :: "rspamd_inet_addr_t \<Rightarrow> string"
  rspamd_log_check_time :: "real \<Rightarrow> real \<Rightarrow> int \<Rightarrow> string"
  rspamd_get_ticks :: real
  rspamd_get_virtual_ticks :: real

definition max_log_elts :: int where
  "max_log_elts = 7"

text \<open>Modelled from the spec: \<^verbatim>\<open>DEFAULT_METRIC\<close>, the name of the default metric.\<close>

definition DEFAULT_METRIC :: string where
  "DEFAULT_METRIC = ''default''"

text \<open>
  \<^verbatim>\<open>strcmp\<close>: the sign of the result is what C specifies; the model gives the
  difference of the first two bytes that differ.
\<close>

fun strcmp :: "string \<Rightarrow> string \<Rightarrow> int" where
  "strcmp [] [] = 0"
| "strcmp [] (b # bs) = - int (of_char b)"
| "strcmp (a # as) [] = int (of_char a)"
| "strcmp (a # as) (b # bs) =
     (if a = b then strcmp as bs else int (of_char a) - int (of_char b))"

text \<open>
  A \<^verbatim>\<open>double\<close> is an IEEE binary64 number: the model keeps its value, a real number,
  and rounds the result of every operation to the nearest number with a 53-bit
  significand, ties to the even one, with the exponent not below that of the
  subnormal numbers. (Not-a-number and the infinities are not modelled; a result too
  large for a \<^verbatim>\<open>double\<close> is too large for the conversion below as well.)
  \<open>bit_length n\<close> is the number of binary digits of a positive \<open>n\<close>; \<open>double_exponent x\<close> is
  the \<open>e\<close> with \<open>2 ^ e \<le> \<bar>x\<bar> < 2 ^ (e + 1)\<close>, or -1022 when that is larger.
\<close>

function bit_length :: "int \<Rightarrow> int" where
  "bit_length n = (if n \<le> 0 then 0 else 1 + bit_length (n div 2))"
  by pat_completeness auto
termination
  by (relation "measure nat") auto

declare bit_length.simps [simp del]

definition pow2 :: "int \<Rightarrow> real" where
  "pow2 e = (if 0 \<le> e then 2 ^ nat e else 1 / 2 ^ nat (- e))"

definition double_exponent :: "real \<Rightarrow> int" where
  "double_exponent x =
     (let a = \<bar>x\<bar>;
          e = (if 1 \<le> a then bit_length \<lfloor>a\<rfloor> - 1
               else - bit_length (\<lceil>1 / a\<rceil> - 1))
      in max e (- 1022))"

definition round_half_even :: "real \<Rightarrow> int" where
  "round_half_even q =
     (let f = \<lfloor>q\<rfloor>; r = q - of_int f in
        if r < 1 / 2 then f
        else if 1 / 2 < r then f + 1
        else if even f then f else f + 1)"

definition double_round :: "real \<Rightarrow> real" where
  "double_round x =
     (if x = 0 then 0
      else (let ulp = pow2 (double_exponent x - 52) in
              of_int (round_half_even (x / ulp)) * ulp))"

text \<open>
  The conversion of a \<^verbatim>\<open>double\<close> to the 32-bit \<^verbatim>\<open>gint\<close> truncates towards zero;
  it is undefined when the truncated value is not a \<^verbatim>\<open>gint\<close>.
\<close>

definition double_to_gint :: "real \<Rightarrow> c_fault + int" where
  "double_to_gint x =
     (if - 2147483649 < x \<and> x < 2147483648
      then Inr (if 0 \<le> x then \<lfloor>x\<rfloor> else \<lceil>x\<rceil>)
      else Inl Conversion_Out_Of_Range)"

text \<open>
  \<^verbatim>\<open>rspamd_task_compare_log_sym\<close>, on the two symbols the arguments point to. The
  scores are doubles; \<^verbatim>\<open>fabs\<close> is exact, the difference and the product with
  \<^verbatim>\<open>1000.0\<close> are rounded, and the product is converted to the returned \<^verbatim>\<open>gint\<close>.
\<close>

definition rspamd_task_compare_log_sym :: "symbol \<Rightarrow> symbol \<Rightarrow> c_fault + int" where
  "rspamd_task_compare_log_sym s1 s2 =
     (let w1 = \<bar>score s1\<bar>; w2 = \<bar>score s2\<bar> in
        if w1 = w2 \<and> name s1 \<noteq> None \<and> name s2 \<noteq> None
        then Inr (strcmp (the (name s1)) (the (name s2)))
        else double_to_gint (double_round (double_round (w2 - w1) * 1000)))"

text \<open>
  \<^verbatim>\<open>g_ptr_array_sort\<close> of GLib sorts by the comparison function it is given; the
  model is the stable insertion sort: an element goes before the first element of the
  sorted rest that it does not compare greater than. A fault of the comparison
  function is the fault of the sort.
\<close>

fun g_sort_insert ::
    "('a \<Rightarrow> 'a \<Rightarrow> c_fault + int) \<Rightarrow> 'a \<Rightarrow> 'a list \<Rightarrow> c_fault + 'a list" where
  "g_sort_insert cmp x [] = Inr [x]"
| "g_sort_insert cmp x (y # ys) =
     (case cmp x y of
        Inl fault \<Rightarrow> Inl fault
      | Inr r \<Rightarrow>
          (if r \<le> 0 then Inr (x # y # ys)
           else (case g_sort_insert cmp x ys of
                   Inl fault \<Rightarrow> Inl fault
                 | Inr zs \<Rightarrow> Inr (y # zs))))"

fun g_ptr_array_sort :: "('a \<Rightarrow> 'a \<Rightarrow> c_fault + int) \<Rightarrow> 'a list \<Rightarrow> c_fault + 'a list" where
  "g_ptr_array_sort cmp [] = Inr []"
| "g_ptr_array_sort cmp (x # xs) =
     (case g_ptr_array_sort cmp xs of
        Inl fault \<Rightarrow> Inl fault
      | Inr sorted_xs \<Rightarrow> g_sort_insert cmp x sorted_xs)"

text \<open>
  The format \<^verbatim>\<open>%s\<close> of \<^verbatim>\<open>rspamd_printf_fstring\<close>; a \<^verbatim>\<open>NULL\<close> string is printed
  as \<^verbatim>\<open>(NULL)\<close>.
\<close>

definition printf_s :: "string option \<Rightarrow> string" where
  "printf_s p = (case p of Some s \<Rightarrow> c_str s | None \<Rightarrow> ''(NULL)'')"

text \<open>The loop over \<^verbatim>\<open>sym->options\<close> in \<^verbatim>\<open>rspamd_task_log_metric_res\<close>.\<close>

fun log_symbol_options :: "string list \<Rightarrow> nat \<Rightarrow> string \<Rightarrow> string" where
  "log_symbol_options [] j symbuf = symbuf"
| "log_symbol_options (opt # cur) j symbuf =
     (let symbuf1 = symbuf @ c_str opt @ '';'' in
        if max_log_elts \<le> int j then symbuf1 @ ''...;''
        else log_symbol_options cur (j + 1) symbuf1)"

text \<open>The loop over the sorted symbols, with the variable \<^verbatim>\<open>first\<close>.\<close>

fun log_symbols_loop ::
    "log_env \<Rightarrow> rspamd_log_format_flag set \<Rightarrow> symbol list \<Rightarrow> bool \<Rightarrow> string \<Rightarrow> string" where
  "log_symbols_loop env fl [] first symbuf = symbuf"
| "log_symbols_loop env fl (symb # rest) first symbuf =
     (let symbuf1 = (if first then symbuf @ printf_s (name symb)
                     else symbuf @ '','' @ printf_s (name symb));
          symbuf2 = (if RSPAMD_LOG_FLAG_SYMBOLS_SCORES \<in> fl
                     then symbuf1 @ ''('' @ printf_double2 env (score symb) @ '')''
                     else symbuf1);
          symbuf3 = (if RSPAMD_LOG_FLAG_SYMBOLS_PARAMS \<in> fl
                     then log_symbol_options (options symb) 0 (symbuf2 @ ''{'') @ ''}''
                     else symbuf2)
      in log_symbols_loop env fl rest False symbuf3)"

text \<open>
  \<^verbatim>\<open>rspamd_task_log_metric_res\<close>: the token it returns, as its bytes (empty for the
  token of length 0). \<^verbatim>\<open>rspamd_snprintf\<close> writes at most 31 bytes into \<^verbatim>\<open>scorebuf\<close>.
\<close>

definition rspamd_task_log_metric_res ::
    "log_env \<Rightarrow> rspamd_task \<Rightarrow> rspamd_log_format \<Rightarrow> c_fault + string" where
  "rspamd_task_log_metric_res env task lf =
     (case results task DEFAULT_METRIC of
        None \<Rightarrow> Inr []
      | Some mres \<Rightarrow>
          (if lf_type lf = RSPAMD_LOG_ISSPAM then
             Inr (if RSPAMD_TASK_IS_SKIPPED task then ''S''
                  else if mres_action mres = METRIC_ACTION_REJECT then ''T''
                  else ''F'')
           else if lf_type lf = RSPAMD_LOG_ACTION then
             Inr (c_str (rspamd_action_to_str env (mres_action mres)))
           else if lf_type lf = RSPAMD_LOG_SCORES then
             Inr (take 31 (printf_double2 env (mres_score mres) @ ''/'' @
                           printf_double2 env (actions_limits mres METRIC_ACTION_REJECT)))
           else if lf_type lf = RSPAMD_LOG_SYMBOLS then
             (case g_ptr_array_sort rspamd_task_compare_log_sym (symbols mres) of
                Inl fault \<Rightarrow> Inl fault
              | Inr sorted_symbols \<Rightarrow>
                  Inr (log_symbols_loop env (lf_flags lf) sorted_symbols True []))
           else Inr []))"

text \<open>
  The loop of \<^verbatim>\<open>rspamd_task_log_write_var\<close> over the content template: \<^verbatim>\<open>p\<close> and
  \<^verbatim>\<open>c\<close> are positions in the template.
\<close>

function log_write_var_loop :: "string \<Rightarrow> string \<Rightarrow> nat \<Rightarrow> nat \<Rightarrow> string \<Rightarrow> string" where
  "log_write_var_loop content var p c res =
     (if p < length content then
        (if content ! p = CHR ''$'' then
           log_write_var_loop content var (p + 1) (p + 1)
             ((if p > c then res @ take (p - c) (drop c content) else res) @ var)
         else log_write_var_loop content var (p + 1) c res)
      else (if p > c then res @ take (p - c) (drop c content) else res))"
  by pat_completeness auto
termination
  by (relation "measure (\<lambda>(content, var, p, c, res). length content - p)") auto

declare log_write_var_loop.simps [simp del]

definition rspamd_task_log_write_var :: "string \<Rightarrow> string \<Rightarrow> string option \<Rightarrow> string" where
  "rspamd_task_log_write_var logbuf var content =
     (case content of
        None \<Rightarrow> logbuf @ var
      | Some ct \<Rightarrow> log_write_var_loop ct var 0 0 logbuf)"

text \<open>
  The loop of \<^verbatim>\<open>rspamd_task_write_ialist\<close>, which builds \<^verbatim>\<open>varbuf\<close>; \<^verbatim>\<open>i\<close> and
  \<^verbatim>\<open>lim\<close> are of type \<^verbatim>\<open>gint\<close>.
\<close>

function write_ialist_loop :: "internet_address list \<Rightarrow> int \<Rightarrow> int \<Rightarrow> string \<Rightarrow> string" where
  "write_ialist_loop ialist lim_v i varbuf =
     (if i < lim_v then
        (let varbuf1 = (case internet_address_list_get_address ialist i of
                          Some (IA_Mailbox a) \<Rightarrow> varbuf @ c_str a
                        | Some IA_Group \<Rightarrow> varbuf
                        | None \<Rightarrow> varbuf);
             varbuf2 = (if varbuf1 \<noteq> [] then
                          (if i \<noteq> lim_v - 1 then varbuf1 @ '','' else varbuf1)
                        else varbuf1)
         in if max_log_elts \<le> i then varbuf2 @ ''...''
            else write_ialist_loop ialist lim_v (i + 1) varbuf2)
      else varbuf)"
  by pat_completeness auto
termination
  by (relation "measure (\<lambda>(ialist, lim_v, i, varbuf). nat (lim_v - i))") auto

declare write_ialist_loop.simps [simp del]

definition rspamd_task_write_ialist ::
    "internet_address list \<Rightarrow> int \<Rightarrow> rspamd_log_format \<Rightarrow> string \<Rightarrow> string" where
  "rspamd_task_write_ialist ialist lim_v lf logbuf =
     (let lim1 = (if lim_v \<le> 0 then int (length ialist) else lim_v);
          varbuf = write_ialist_loop ialist lim1 0 []
      in if varbuf \<noteq> [] then rspamd_task_log_write_var logbuf varbuf (lf_data lf)
         else logbuf)"

text \<open>
  The loop of \<^verbatim>\<open>rspamd_task_write_addr_list\<close>. The element is read with
  \<^verbatim>\<open>g_ptr_array_index\<close>, unchecked.
\<close>

function write_addr_list_loop ::
    "rspamd_email_address list \<Rightarrow> int \<Rightarrow> int \<Rightarrow> string \<Rightarrow> c_fault + string" where
  "write_addr_list_loop addrs lim_v i varbuf =
     (if i < lim_v then
        (case g_ptr_array_index addrs (nat i) of
           Inl fault \<Rightarrow> Inl fault
         | Inr a \<Rightarrow>
             (let varbuf1 = (case addr a of Some s \<Rightarrow> varbuf @ s | None \<Rightarrow> varbuf);
                  varbuf2 = (if varbuf1 \<noteq> [] then
                               (if i \<noteq> lim_v - 1 then varbuf1 @ '','' else varbuf1)
                             else varbuf1)
              in if max_log_elts \<le> i then Inr (varbuf2 @ ''...'')
                 else write_addr_list_loop addrs lim_v (i + 1) varbuf2))
      else Inr varbuf)"
  by pat_completeness auto
termination
  by (relation "measure (\<lambda>(addrs, lim_v, i, varbuf). nat (lim_v - i))") auto

declare write_addr_list_loop.simps [simp del]

definition rspamd_task_write_addr_list ::
    "rspamd_email_address list \<Rightarrow> int \<Rightarrow> rspamd_log_format \<Rightarrow> string \<Rightarrow> c_fault + string" where
  "rspamd_task_write_addr_list addrs lim_v lf logbuf =
     (let lim1 = (if lim_v \<le> 0 then int (length addrs) else lim_v) in
      case write_addr_list_loop addrs lim1 0 [] of
        Inl fault \<Rightarrow> Inl fault
      | Inr varbuf \<Rightarrow>
          Inr (if varbuf \<noteq> [] then rspamd_task_log_write_var logbuf varbuf (lf_data lf)
               else logbuf))"

text \<open>The decimal digits of an unsigned number (the formats \<^verbatim>\<open>%uz\<close> and \<^verbatim>\<open>%uD\<close>).\<close>

fun printf_unsigned :: "nat \<Rightarrow> string" where
  "printf_unsigned n =
     (if n < 10 then [char_of (48 + n)]
      else printf_unsigned (n div 10) @ [char_of (48 + n mod 10)])"

declare printf_unsigned.simps [simp del]

text \<open>
  The last step of \<^verbatim>\<open>rspamd_task_log_variable\<close>, after the \<^verbatim>\<open>switch\<close>:
  \<^verbatim>\<open>if (var.len > 0) res = rspamd_task_log_write_var (...)\<close>.
\<close>

definition log_variable_finish :: "rspamd_log_format \<Rightarrow> string \<Rightarrow> string \<Rightarrow> string" where
  "log_variable_finish lf logbuf var =
     (if var \<noteq> [] then rspamd_task_log_write_var logbuf var (lf_data lf) else logbuf)"

definition string_or_undef :: "string option \<Rightarrow> string" where
  "string_or_undef p = (case p of Some s \<Rightarrow> c_str s | None \<Rightarrow> ''undef'')"

text \<open>\<^verbatim>\<open>rspamd_task_log_variable\<close>: the log buffer after the item.\<close>

definition rspamd_task_log_variable ::
    "log_env \<Rightarrow> rspamd_task \<Rightarrow> rspamd_log_format \<Rightarrow> string \<Rightarrow> c_fault + string" where
  "rspamd_task_log_variable env task lf logbuf =
     (case lf_type lf of
        RSPAMD_LOG_MID \<Rightarrow> Inr (log_variable_finish lf logbuf (string_or_undef (message_id task)))
      | RSPAMD_LOG_QID \<Rightarrow> Inr (log_variable_finish lf logbuf (string_or_undef (queue_id task)))
      | RSPAMD_LOG_USER \<Rightarrow> Inr (log_variable_finish lf logbuf (string_or_undef (user task)))
      | RSPAMD_LOG_IP \<Rightarrow>
          Inr (log_variable_finish lf logbuf
            (case from_addr task of
               Some a \<Rightarrow> (if rspamd_ip_is_valid env a
                           then c_str (rspamd_inet_address_to_string env a) else ''undef'')
             | None \<Rightarrow> ''undef''))
      | RSPAMD_LOG_LEN \<Rightarrow>
          Inr (log_variable_finish lf logbuf (printf_unsigned (unat (wlen (msg task)))))
      | RSPAMD_LOG_DNS_REQ \<Rightarrow>
          Inr (log_variable_finish lf logbuf (printf_unsigned (unat (dns_requests task))))
      | RSPAMD_LOG_TIME_REAL \<Rightarrow>
          (case cfg task of
             None \<Rightarrow> Inl Null_Dereference
           | Some c \<Rightarrow>
               Inr (log_variable_finish lf logbuf
                 (c_str (rspamd_log_check_time env (time_real task) (rspamd_get_ticks env)
                    (clock_res c)))))
      | RSPAMD_LOG_TIME_VIRTUAL \<Rightarrow>
          (case cfg task of
             None \<Rightarrow> Inl Null_Dereference
           | Some c \<Rightarrow>
               Inr (log_variable_finish lf logbuf
                 (c_str (rspamd_log_check_time env (time_virtual task)
                    (rspamd_get_virtual_ticks env) (clock_res c)))))
      | RSPAMD_LOG_SMTP_FROM \<Rightarrow>
          Inr (log_variable_finish lf logbuf
            (case from_envelope task of
               Some a \<Rightarrow> (case addr a of Some s \<Rightarrow> s | None \<Rightarrow> [])
             | None \<Rightarrow> []))
      | RSPAMD_LOG_MIME_FROM \<Rightarrow>
          (case from_mime task of
             Some ialist \<Rightarrow> Inr (rspamd_task_write_ialist ialist 1 lf logbuf)
           | None \<Rightarrow> Inr (log_variable_finish lf logbuf []))
      | RSPAMD_LOG_SMTP_RCPT \<Rightarrow>
          (case rcpt_envelope task of
             Some addrs \<Rightarrow> rspamd_task_write_addr_list addrs 1 lf logbuf
           | None \<Rightarrow> Inr (log_variable_finish lf logbuf []))
      | RSPAMD_LOG_MIME_RCPT \<Rightarrow>
          (case rcpt_mime task of
             Some ialist \<Rightarrow> Inr (rspamd_task_write_ialist ialist 1 lf logbuf)
           | None \<Rightarrow> Inr (log_variable_finish lf logbuf []))
      | RSPAMD_LOG_SMTP_RCPTS \<Rightarrow>
          (case rcpt_envelope task of
             Some addrs \<Rightarrow> rspamd_task_write_addr_list addrs (- 1) lf logbuf
           | None \<Rightarrow> Inr (log_variable_finish lf logbuf []))
      | RSPAMD_LOG_MIME_RCPTS \<Rightarrow>
          (case rcpt_mime task of
             Some ialist \<Rightarrow> Inr (rspamd_task_write_ialist ialist (- 1) lf logbuf)
           | None \<Rightarrow> Inr (log_variable_finish lf logbuf []))
      | _ \<Rightarrow>
          (case rspamd_task_log_metric_res env task lf of
             Inl fault \<Rightarrow> Inl fault
           | Inr var \<Rightarrow> Inr (log_variable_finish lf logbuf var)))"

section \<open>Example inputs\<close>

text \<open>A fresh task, as \<^verbatim>\<open>rspamd_task_new\<close> returns it without a configuration.\<close>

definition example_task :: rspamd_task where
  "example_task = rspamd_task_new None 0 0"

text \<open>A configuration, and a fresh task that holds it.\<close>

definition example_config :: rspamd_config where
  "example_config = \<lparr>check_all_filters = False, clock_res = 3\<rparr>"

definition example_cfg_task :: rspamd_task where
  "example_cfg_task = rspamd_task_new (Some example_config) 0 0"

text \<open>
  Handlers that succeed and leave the task as it is, but for the learner, which fails
  with an error; no event is ever pending.
\<close>

definition example_learn_error :: gerror where
  "example_learn_error = \<lparr>domain = ''stat-error'', code = Other_Error_Code 500, message = ''learn failed''\<rparr>"

definition example_handlers :: stage_handlers where
  "example_handlers =
     \<lparr>rspamd_message_parse = (\<lambda>task. (True, task)),
      rspamd_lua_call_pre_filters = (\<lambda>task. task),
      rspamd_symbols_cache_process_symbols = (\<lambda>task. (True, task)),
      rspamd_stat_classify = (\<lambda>st task. (RSPAMD_STAT_PROCESS_OK, task)),
      rspamd_make_composites = (\<lambda>task. task),
      rspamd_lua_call_post_filters = (\<lambda>task. task),
      rspamd_stat_check_autolearn = (\<lambda>task. task),
      rspamd_stat_learn = (\<lambda>is_spam cl st task. ((False, Some example_learn_error), task)),
      rspamd_session_events_pending = (\<lambda>task. 0)\<rparr>"

text \<open>
  A task with a configuration that asks to learn spam, with every stage before
  \<^verbatim>\<open>LEARN_PRE\<close> completed.
\<close>

definition example_learn_task :: rspamd_task where
  "example_learn_task =
     example_cfg_task\<lparr>flags := {RSPAMD_TASK_FLAG_LEARN_SPAM}, processed_stages := 255\<rparr>"

text \<open>
  A loader environment: one shared-memory segment \<^verbatim>\<open>/seg\<close> of 10 bytes, mapped at
  address 4096; no file can be opened; numbers are read as decimals; the control chunk
  parser fails; headers and URL decoding change nothing.
\<close>

definition example_strtoul :: "string \<Rightarrow> gsize \<Rightarrow> gsize" where
  "example_strtoul tok v = foldl (\<lambda>a c. 10 * a + of_nat (of_char c - 48)) 0 tok"

definition example_loader :: loader_env where
  "example_loader =
     \<lparr>rspamd_protocol_handle_headers = (\<lambda>m task. task),
      rspamd_decode_url = (\<lambda>s. s),
      os_shm_open = (\<lambda>p. if p = ''/seg'' then Inr 3 else Inl ''No such file or directory''),
      os_fstat = (\<lambda>fd. Inr 10),
      os_stat = (\<lambda>p. Inl ''No such file or directory''),
      os_open = (\<lambda>p. Inl ''No such file or directory''),
      os_mmap = (\<lambda>n fd. Inr 4096),
      rspamd_strtoul = example_strtoul,
      ucl_parser_add_chunk = (\<lambda>p n. None),
      rspamd_protocol_handle_control = (\<lambda>obj task. task)\<rparr>"

text \<open>A fresh task with the has-control-chunk flag.\<close>

definition example_control_task :: rspamd_task where
  "example_control_task = example_task\<lparr>flags := {RSPAMD_TASK_FLAG_HAS_CONTROL}\<rparr>"

text \<open>
  Eight and nine recipients, as envelope addresses and as MIME mailboxes, and a
  format item of a given type with no flags and no content template.
\<close>

definition example_rcpts8 :: "rspamd_email_address list" where
  "example_rcpts8 = map (\<lambda>s. \<lparr>addr = Some s\<rparr>) [''a'', ''b'', ''c'', ''d'', ''e'', ''f'', ''g'', ''h'']"

definition example_rcpts9 :: "rspamd_email_address list" where
  "example_rcpts9 = example_rcpts8 @ [\<lparr>addr = Some ''i''\<rparr>]"

definition example_mime8 :: "internet_address list" where
  "example_mime8 = map IA_Mailbox [''a'', ''b'', ''c'', ''d'', ''e'', ''f'', ''g'', ''h'']"

definition example_mime9 :: "internet_address list" where
  "example_mime9 = example_mime8 @ [IA_Mailbox ''i'']"

definition example_item :: "rspamd_log_format_type \<Rightarrow> rspamd_log_format" where
  "example_item ty = \<lparr>lf_type = ty, lf_flags = {}, lf_data = None\<rparr>"

text \<open>
  A log environment whose \<^verbatim>\<open>%.2f\<close> rounds the hundredths half up, and a task whose
  default metric holds the given symbols in the given iteration order.
\<close>

definition example_printf_double2 :: "real \<Rightarrow> string" where
  "example_printf_double2 x =
     (let n = nat \<lfloor>\<bar>x\<bar> * 100 + 1 / 2\<rfloor> in
        (if x < 0 then ''-'' else []) @ printf_unsigned (n div 100) @ ''.'' @
        [char_of (48 + (n div 10) mod 10), char_of (48 + n mod 10)])"

definition example_log_env :: log_env where
  "example_log_env =
     \<lparr>rspamd_action_to_str = (\<lambda>a. if a = METRIC_ACTION_REJECT then ''reject'' else ''no action''),
      printf_double2 = example_printf_double2,
      rspamd_ip_is_valid = (\<lambda>a. False),
      rspamd_inet_address_to_string = (\<lambda>a. ''undef''),
      rspamd_log_check_time = (\<lambda>t0 t1 res. printf_unsigned (nat \<lfloor>(t1 - t0) * 1000\<rfloor>) @ ''ms''),
      rspamd_get_ticks = 1,
      rspamd_get_virtual_ticks = 1\<rparr>"

definition example_result :: "symbol list \<Rightarrow> rspamd_task" where
  "example_result syms =
     example_task\<lparr>results :=
       [DEFAULT_METRIC \<mapsto>
          \<lparr>mres_score = 0, mres_action = METRIC_ACTION_NOACTION,
           actions_limits = (\<lambda>a. 15), symbols = syms\<rparr>]\<rparr>"

definition example_sym :: "string \<Rightarrow> real \<Rightarrow> symbol" where
  "example_sym n sc = \<lparr>score = sc, name = Some n, options = []\<rparr>"

section \<open>Properties of the stage selector\<close>

lemma stage_shift_loop_top:
  "bit mask_v k \<Longrightarrow> (\<forall>i>k. \<not> bit mask_v i) \<Longrightarrow> stage_shift_loop mask_v st = Some (st + k)"
proof (induction k arbitrary: mask_v st)
  case 0
  have "mask_v = 1"
  proof (rule bit_eqI)
    fix n
    show "bit mask_v n = bit (1::guint) n"
      using 0 by (cases n) (auto simp: bit_1_iff)
  qed
  then show ?case by (simp add: stage_shift_loop.simps)
next
  case (Suc k)
  have ne: "mask_v \<noteq> 1"
    using Suc.prems(1) by (auto simp: bit_1_iff)
  have b: "bit (drop_bit 1 mask_v) k"
    using Suc.prems(1) by (simp add: bit_drop_bit_eq)
  have u: "\<forall>i>k. \<not> bit (drop_bit 1 mask_v) i"
    using Suc.prems(2) by (simp add: bit_drop_bit_eq)
  have "stage_shift_loop (drop_bit 1 mask_v) (st + 1) = Some (st + 1 + k)"
    by (rule Suc.IH [OF b u])
  with ne show ?case
    by (subst stage_shift_loop.simps) simp
qed

lemma uint_stage_bit: "k < 32 \<Longrightarrow> uint (2 ^ k :: guint) = 2 ^ k"
  by (rule uint_2p) (simp add: word_greater_zero_iff)

lemma sint_stage_bit:
  assumes "k < 31" shows "sint (push_bit k 1 :: guint) = 2 ^ k"
proof -
  have lt: "(2::int) ^ k < 2 ^ 31"
    using assms by (subst power_strict_increasing_iff) simp_all
  have u: "uint (2 ^ k :: guint) = 2 ^ k"
    using assms by (simp add: uint_stage_bit)
  have nb: "\<not> bit (2 ^ k :: int) 31"
    using assms by (simp add: bit_exp_iff)
  have "take_bit 31 (2 ^ k :: int) = 2 ^ k"
    using lt by (simp add: take_bit_eq_mod)
  then show ?thesis
    using nb u by (simp add: sint_uint signed_take_bit_eq_if_positive)
qed

lemma stage_sless_DONE:
  assumes "k < 31"
  shows "((push_bit k 1 :: guint) <s RSPAMD_TASK_STAGE_DONE) = (k < 11)"
proof -
  have "sint RSPAMD_TASK_STAGE_DONE = 2 ^ 11"
    unfolding RSPAMD_TASK_STAGE_DONE_def by (rule sint_stage_bit) simp
  moreover have "((2::int) ^ k < 2 ^ 11) = (k < 11)"
    by (rule power_strict_increasing_iff) simp
  ultimately show ?thesis
    using assms by (simp only: word_sless_alt sint_stage_bit)
qed

lemma and_stage_bit: "(stages AND push_bit k 1 \<noteq> 0) = bit (stages :: guint) k"
  by (simp add: push_bit_of_1 and_exp_eq_0_iff_not_bit)

lemma bit_stage_bit: "k < 32 \<Longrightarrow> bit (push_bit k 1 :: guint) i = (i = k)"
  by (auto simp: bit_exp_iff)

lemma stage_bitmap_bits:
  assumes "(x::guint) AND RSPAMD_TASK_PROCESS_ALL = x" "bit x i" shows "i < 12"
proof -
  from assms have "bit (x AND RSPAMD_TASK_PROCESS_ALL) i" by simp
  then show ?thesis
    by (simp add: RSPAMD_TASK_PROCESS_ALL_def bit_and_iff bit_mask_iff)
qed

lemma select_position:
  assumes "\<forall>i. bit (processed_stages t) i \<longrightarrow> i < h" "h = 0 \<or> bit (processed_stages t) (h - 1)"
  shows "(if processed_stages t = 0 then Some 0 else stage_shift_loop (processed_stages t) 1) = Some h"
proof (cases "h = 0")
  case True
  with assms(1) have "processed_stages t = 0"
    by (auto intro: bit_eqI)
  with True show ?thesis by simp
next
  case False
  with assms(2) have b: "bit (processed_stages t) (h - 1)" by simp
  then have ne: "processed_stages t \<noteq> 0" by auto
  have "\<forall>i>h - 1. \<not> bit (processed_stages t) i"
    using assms(1) False by fastforce
  from stage_shift_loop_top [OF b this, of 1] False ne show ?thesis by simp
qed

lemma select_unfold:
  assumes "\<forall>i. bit (processed_stages t) i \<longrightarrow> i < h" "h = 0 \<or> bit (processed_stages t) (h - 1)"
    and "h < 31"
  shows "rspamd_task_select_processing_stage t req =
    (if bit req h then Some (Inr (push_bit h 1, t))
     else if h < 11 then rspamd_task_select_processing_stage
              (t\<lparr>processed_stages := processed_stages t OR push_bit h 1\<rparr>) req
     else Some (Inr (RSPAMD_TASK_STAGE_DONE, t)))"
proof -
  have "rspamd_task_select_processing_stage t req =
     Option.bind (Some h)
       (\<lambda>st.
          if 31 \<le> st then Some (Inl (Shift_Out_Of_Range st))
          else if req AND push_bit st 1 \<noteq> 0 then Some (Inr (push_bit st 1, t))
          else if push_bit st 1 <s RSPAMD_TASK_STAGE_DONE then
            rspamd_task_select_processing_stage
              (t\<lparr>processed_stages := processed_stages t OR push_bit st 1\<rparr>) req
          else Some (Inr (RSPAMD_TASK_STAGE_DONE, t)))"
    by (subst rspamd_task_select_processing_stage.simps)
       (simp only: select_position [OF assms(1,2)])
  also have "\<dots> = (if bit req h then Some (Inr (push_bit h 1, t))
     else if h < 11 then rspamd_task_select_processing_stage
              (t\<lparr>processed_stages := processed_stages t OR push_bit h 1\<rparr>) req
     else Some (Inr (RSPAMD_TASK_STAGE_DONE, t)))"
    using assms(3)
    by (simp only: Option.bind.simps and_stage_bit stage_sless_DONE) simp
  finally show ?thesis .
qed

lemma select_below_DONE:
  assumes "\<forall>i. bit (processed_stages t) i \<longrightarrow> i < h" "h = 0 \<or> bit (processed_stages t) (h - 1)"
    and "h \<le> 11"
  shows "\<exists>p ps'. rspamd_task_select_processing_stage t req =
            Some (Inr (push_bit p 1, t\<lparr>processed_stages := ps'\<rparr>)) \<and>
          h \<le> p \<and> p \<le> 11 \<and> (p < 11 \<longrightarrow> bit req p) \<and>
          (\<forall>i. h \<le> i \<and> i < p \<longrightarrow> \<not> bit req i) \<and>
          (\<forall>i. bit ps' i \<longleftrightarrow> bit (processed_stages t) i \<or> (h \<le> i \<and> i < p))"
  using assms
proof (induction "11 - h" arbitrary: t h)
  case 0
  then have h: "h = 11" by simp
  have u: "rspamd_task_select_processing_stage t req = Some (Inr (push_bit 11 1, t))"
    using select_unfold [OF "0.prems"(1,2), of req] h
    by (simp add: RSPAMD_TASK_STAGE_DONE_def)
  show ?case
    by (rule exI [of _ 11], rule exI [of _ "processed_stages t"]) (auto simp: u h)
next
  case (Suc n)
  then have h: "h < 11" by simp
  show ?case
  proof (cases "bit req h")
    case True
    have u: "rspamd_task_select_processing_stage t req = Some (Inr (push_bit h 1, t))"
      using select_unfold [OF Suc.prems(1,2), of req] h True by simp
    show ?thesis
      using h True by (intro exI [of _ h] exI [of _ "processed_stages t"]) (auto simp: u)
  next
    case False
    let ?t = "t\<lparr>processed_stages := processed_stages t OR push_bit h 1\<rparr>"
    have u: "rspamd_task_select_processing_stage t req = rspamd_task_select_processing_stage ?t req"
      using select_unfold [OF Suc.prems(1,2), of req] h False by simp
    have a1: "\<forall>i. bit (processed_stages ?t) i \<longrightarrow> i < Suc h"
      using Suc.prems(1) h by (auto simp: bit_or_iff bit_exp_iff)
    have a2: "Suc h = 0 \<or> bit (processed_stages ?t) (Suc h - 1)"
      using h by (simp add: bit_or_iff bit_exp_iff)
    have "n = 11 - Suc h" using Suc.hyps(2) by simp
    then have "\<exists>p ps'. rspamd_task_select_processing_stage ?t req =
            Some (Inr (push_bit p 1, ?t\<lparr>processed_stages := ps'\<rparr>)) \<and>
          Suc h \<le> p \<and> p \<le> 11 \<and> (p < 11 \<longrightarrow> bit req p) \<and>
          (\<forall>i. Suc h \<le> i \<and> i < p \<longrightarrow> \<not> bit req i) \<and>
          (\<forall>i. bit ps' i \<longleftrightarrow> bit (processed_stages ?t) i \<or> (Suc h \<le> i \<and> i < p))"
      using a1 a2 h by (intro Suc.hyps(1)) simp_all
    then obtain p ps' where r: "rspamd_task_select_processing_stage ?t req =
            Some (Inr (push_bit p 1, ?t\<lparr>processed_stages := ps'\<rparr>))"
       and p: "Suc h \<le> p" "p \<le> 11" "p < 11 \<longrightarrow> bit req p"
       and sk: "\<forall>i. Suc h \<le> i \<and> i < p \<longrightarrow> \<not> bit req i"
       and ps: "\<forall>i. bit ps' i \<longleftrightarrow> bit (processed_stages ?t) i \<or> (Suc h \<le> i \<and> i < p)"
      by blast
    have sk': "\<forall>i. h \<le> i \<and> i < p \<longrightarrow> \<not> bit req i"
    proof (intro allI impI)
      fix i assume i: "h \<le> i \<and> i < p"
      show "\<not> bit req i"
      proof (cases "i = h")
        case True
        with False show ?thesis by simp
      next
        case False
        with i have "Suc h \<le> i \<and> i < p" by simp
        with sk show ?thesis by blast
      qed
    qed
    have ps'': "\<forall>i. bit ps' i \<longleftrightarrow> bit (processed_stages t) i \<or> (h \<le> i \<and> i < p)"
    proof
      fix i
      have "bit (processed_stages ?t) i \<longleftrightarrow> bit (processed_stages t) i \<or> i = h"
        using h by (auto simp: bit_or_iff bit_exp_iff)
      moreover have "(i = h \<or> (Suc h \<le> i \<and> i < p)) \<longleftrightarrow> (h \<le> i \<and> i < p)"
        using p(1) by arith
      ultimately show "bit ps' i \<longleftrightarrow> bit (processed_stages t) i \<or> (h \<le> i \<and> i < p)"
        using ps by blast
    qed
    have "h \<le> p" using p(1) by simp
    with r p(2,3) sk' ps'' show ?thesis
      unfolding u by (intro exI [of _ p] exI [of _ ps']) simp
  qed
qed


lemma bits_below:
  assumes "(x::guint) AND mask h = x" shows "\<forall>i. bit x i \<longrightarrow> i < h"
proof (intro allI impI)
  fix i assume "bit x i"
  with assms have "bit (x AND mask h) i" by simp
  then show "i < h" by (simp add: bit_and_iff bit_mask_iff)
qed

lemma select_step:
  assumes "processed_stages t = x" "x AND mask h = x" "h = 0 \<or> bit x (h - 1)" "h < 31"
  shows "rspamd_task_select_processing_stage t req =
    (if bit req h then Some (Inr (push_bit h 1, t))
     else if h < 11 then rspamd_task_select_processing_stage
              (t\<lparr>processed_stages := x OR push_bit h 1\<rparr>) req
     else Some (Inr (RSPAMD_TASK_STAGE_DONE, t)))"
proof -
  have a: "\<forall>i. bit (processed_stages t) i \<longrightarrow> i < h"
    unfolding assms(1) by (rule bits_below) (rule assms(2))
  have b: "h = 0 \<or> bit (processed_stages t) (h - 1)"
    unfolding assms(1) by (rule assms(3))
  show ?thesis
    using select_unfold [OF a b assms(4), of req] by (simp only: assms(1))
qed

text \<open>
  Scenario 3 of the specification: with \<^verbatim>\<open>READ_MESSAGE\<close> and \<^verbatim>\<open>FILTERS\<close> completed and
  \<^verbatim>\<open>COMPOSITES\<close> and \<^verbatim>\<open>DONE\<close> requested, the selector returns \<^verbatim>\<open>COMPOSITES\<close> and marks
  the three classifier stages.
\<close>

lemma selector_scenario3:
  "rspamd_task_select_processing_stage
     (example_task\<lparr>processed_stages := RSPAMD_TASK_STAGE_READ_MESSAGE OR RSPAMD_TASK_STAGE_FILTERS\<rparr>)
     (RSPAMD_TASK_STAGE_COMPOSITES OR RSPAMD_TASK_STAGE_DONE) =
   Some (Inr (RSPAMD_TASK_STAGE_COMPOSITES,
     example_task\<lparr>processed_stages :=
       RSPAMD_TASK_STAGE_READ_MESSAGE OR RSPAMD_TASK_STAGE_FILTERS OR
       RSPAMD_TASK_STAGE_CLASSIFIERS_PRE OR RSPAMD_TASK_STAGE_CLASSIFIERS OR
       RSPAMD_TASK_STAGE_CLASSIFIERS_POST\<rparr>))"
proof -
  let ?req = "RSPAMD_TASK_STAGE_COMPOSITES OR RSPAMD_TASK_STAGE_DONE"
  have req: "?req = 2112"
    by (simp add: RSPAMD_TASK_STAGE_COMPOSITES_def RSPAMD_TASK_STAGE_DONE_def)
  have s3: "rspamd_task_select_processing_stage (example_task\<lparr>processed_stages := 5\<rparr>) 2112 =
      rspamd_task_select_processing_stage (example_task\<lparr>processed_stages := 13\<rparr>) 2112"
    by (subst select_step [where x = 5 and h = 3]) (simp_all add: mask_eq_exp_minus_1)
  have s4: "rspamd_task_select_processing_stage (example_task\<lparr>processed_stages := 13\<rparr>) 2112 =
      rspamd_task_select_processing_stage (example_task\<lparr>processed_stages := 29\<rparr>) 2112"
    by (subst select_step [where x = 13 and h = 4]) (simp_all add: mask_eq_exp_minus_1)
  have s5: "rspamd_task_select_processing_stage (example_task\<lparr>processed_stages := 29\<rparr>) 2112 =
      rspamd_task_select_processing_stage (example_task\<lparr>processed_stages := 61\<rparr>) 2112"
    by (subst select_step [where x = 29 and h = 5]) (simp_all add: mask_eq_exp_minus_1)
  have s6: "rspamd_task_select_processing_stage (example_task\<lparr>processed_stages := 61\<rparr>) 2112 =
      Some (Inr (64, example_task\<lparr>processed_stages := 61\<rparr>))"
    by (subst select_step [where x = 61 and h = 6]) (simp_all add: mask_eq_exp_minus_1)
  show ?thesis
    unfolding req using s3 s4 s5 s6
    by (simp add: RSPAMD_TASK_STAGE_READ_MESSAGE_def RSPAMD_TASK_STAGE_FILTERS_def
        RSPAMD_TASK_STAGE_CLASSIFIERS_PRE_def RSPAMD_TASK_STAGE_CLASSIFIERS_def
        RSPAMD_TASK_STAGE_CLASSIFIERS_POST_def RSPAMD_TASK_STAGE_COMPOSITES_def)
qed

text \<open>
  Claim C1. Let \<open>h\<close> be the position just above the highest set bit of the bitmap of
  completed stages (\<open>h = 0\<close> for the empty bitmap), the bitmap and the requested mask
  being sets of stages. The selector returns: it yields a single bit \<open>p\<close>, which is
  the lowest requested position from \<open>h\<close> on when there is one below the position of
  \<^verbatim>\<open>DONE\<close>, and \<^verbatim>\<open>DONE\<close> otherwise. The positions from \<open>h\<close> up to \<open>p\<close> are not
  requested and are marked in the bitmap; nothing else of the task changes.
\<close>

theorem select_processing_stage_correct:
  assumes done_bitmap: "processed_stages task AND RSPAMD_TASK_PROCESS_ALL = processed_stages task"
    and req_mask: "stages AND RSPAMD_TASK_PROCESS_ALL = stages"
    and above: "\<forall>i. bit (processed_stages task) i \<longrightarrow> i < h"
    and top: "h = 0 \<or> bit (processed_stages task) (h - 1)"
  shows "\<exists>st p ps'.
      rspamd_task_select_processing_stage task stages =
        Some (Inr (st, task\<lparr>processed_stages := ps'\<rparr>)) \<and>
      st = push_bit p 1 \<and> p \<le> 11 \<and>
      (p < 11 \<and> h \<le> p \<and> bit stages p \<or> st = RSPAMD_TASK_STAGE_DONE) \<and>
      (\<forall>i. h \<le> i \<and> i < p \<longrightarrow> \<not> bit stages i \<and> bit ps' i) \<and>
      (\<forall>i. bit ps' i \<longleftrightarrow> bit (processed_stages task) i \<or> (h \<le> i \<and> i < p))"
proof (cases "h \<le> 11")
  case True
  from select_below_DONE [OF above top True, of stages]
  obtain p ps' where r: "rspamd_task_select_processing_stage task stages =
            Some (Inr (push_bit p 1, task\<lparr>processed_stages := ps'\<rparr>))"
       and p: "h \<le> p" "p \<le> 11" "p < 11 \<longrightarrow> bit stages p"
       and sk: "\<forall>i. h \<le> i \<and> i < p \<longrightarrow> \<not> bit stages i"
       and ps: "\<forall>i. bit ps' i \<longleftrightarrow> bit (processed_stages task) i \<or> (h \<le> i \<and> i < p)"
    by blast
  have d: "p < 11 \<and> h \<le> p \<and> bit stages p \<or> (push_bit p 1 :: guint) = RSPAMD_TASK_STAGE_DONE"
  proof (cases "p < 11")
    case True
    with p show ?thesis by simp
  next
    case False
    with p(2) have "p = 11" by simp
    then show ?thesis by (simp add: RSPAMD_TASK_STAGE_DONE_def)
  qed
  have sk2: "\<forall>i. h \<le> i \<and> i < p \<longrightarrow> \<not> bit stages i \<and> bit ps' i"
    using sk ps by blast
  show ?thesis
    using r p(2) d sk2 ps by blast
next
  case False
  have h12: "h - 1 < 12"
    using top False by (auto dest: stage_bitmap_bits [OF done_bitmap])
  with False have h: "h = 12" by simp
  have nb: "\<not> bit stages h"
    using stage_bitmap_bits [OF req_mask, of h] h by auto
  have u: "rspamd_task_select_processing_stage task stages =
      Some (Inr (RSPAMD_TASK_STAGE_DONE, task))"
    using select_unfold [OF above top, of stages] h nb by simp
  have e: "task\<lparr>processed_stages := processed_stages task\<rparr> = task" by simp
  show ?thesis
    apply (rule exI [of _ RSPAMD_TASK_STAGE_DONE])
    apply (rule exI [of _ 11])
    apply (rule exI [of _ "processed_stages task"])
    using h by (auto simp: u RSPAMD_TASK_STAGE_DONE_def)
qed

theorem select_processing_stage_correct_witness:
  "\<exists>st p ps'.
      rspamd_task_select_processing_stage
        (example_task\<lparr>processed_stages := RSPAMD_TASK_STAGE_READ_MESSAGE OR RSPAMD_TASK_STAGE_FILTERS\<rparr>)
        (RSPAMD_TASK_STAGE_COMPOSITES OR RSPAMD_TASK_STAGE_DONE) =
        Some (Inr (st, example_task\<lparr>processed_stages := ps'\<rparr>)) \<and>
      st = push_bit p 1 \<and> p \<le> 11 \<and>
      (p < 11 \<and> 3 \<le> p \<and> bit (RSPAMD_TASK_STAGE_COMPOSITES OR RSPAMD_TASK_STAGE_DONE) p \<or> st = RSPAMD_TASK_STAGE_DONE) \<and>
      (\<forall>i. 3 \<le> i \<and> i < p \<longrightarrow> \<not> bit (RSPAMD_TASK_STAGE_COMPOSITES OR RSPAMD_TASK_STAGE_DONE) i \<and> bit ps' i) \<and>
      (\<forall>i. bit ps' i \<longleftrightarrow> bit (RSPAMD_TASK_STAGE_READ_MESSAGE OR RSPAMD_TASK_STAGE_FILTERS) i \<or> (3 \<le> i \<and> i < p))"
proof -
  let ?t = "example_task\<lparr>processed_stages := RSPAMD_TASK_STAGE_READ_MESSAGE OR RSPAMD_TASK_STAGE_FILTERS\<rparr>"
  let ?r = "RSPAMD_TASK_STAGE_COMPOSITES OR RSPAMD_TASK_STAGE_DONE"
  have v: "processed_stages ?t = 5" "?r = 2112"
    by (simp_all add: RSPAMD_TASK_STAGE_READ_MESSAGE_def RSPAMD_TASK_STAGE_FILTERS_def
        RSPAMD_TASK_STAGE_COMPOSITES_def RSPAMD_TASK_STAGE_DONE_def)
  have a: "processed_stages ?t AND RSPAMD_TASK_PROCESS_ALL = processed_stages ?t"
    unfolding v by (simp add: RSPAMD_TASK_PROCESS_ALL_def mask_eq_exp_minus_1)
  have b: "?r AND RSPAMD_TASK_PROCESS_ALL = ?r"
    unfolding v by (simp add: RSPAMD_TASK_PROCESS_ALL_def mask_eq_exp_minus_1)
  have c: "\<forall>i. bit (processed_stages ?t) i \<longrightarrow> i < 3"
    unfolding v by (rule bits_below) (simp add: mask_eq_exp_minus_1)
  have d: "3 = (0::nat) \<or> bit (processed_stages ?t) (3 - 1)"
    unfolding v by simp
  show ?thesis
    using select_processing_stage_correct [OF a b c d] by simp
qed

section \<open>Properties of the pipeline engine\<close>

lemma IS_PROCESSED_iff_bit: "RSPAMD_TASK_IS_PROCESSED task \<longleftrightarrow> bit (processed_stages task) 11"
  by (simp only: RSPAMD_TASK_IS_PROCESSED_def RSPAMD_TASK_STAGE_DONE_def and_stage_bit)

lemma bit_DONE: "bit RSPAMD_TASK_STAGE_DONE i \<longleftrightarrow> i = 11"
  unfolding RSPAMD_TASK_STAGE_DONE_def by (rule bit_stage_bit) simp

lemma or_DONE_idem:
  assumes "RSPAMD_TASK_IS_PROCESSED task" shows "set_stage_done task = task"
proof -
  have b: "bit (processed_stages task) 11"
    using assms by (simp only: IS_PROCESSED_iff_bit)
  have "processed_stages task OR RSPAMD_TASK_STAGE_DONE = processed_stages task"
    by (rule bit_eqI) (use b in \<open>auto simp: bit_or_iff bit_DONE\<close>)
  then show ?thesis by (simp add: set_stage_done_def)
qed

lemma processed_set_stage_done: "RSPAMD_TASK_IS_PROCESSED (set_stage_done task)"
  by (simp add: IS_PROCESSED_iff_bit set_stage_done_def bit_or_iff bit_DONE)

lemma select_frame_aux:
  assumes "rspamd_task_select_processing_stage task stages = Some y"
  shows "\<forall>st t1. y = Inr (st, t1) \<longrightarrow> (\<exists>ps. t1 = task\<lparr>processed_stages := ps\<rparr>)"
  using assms
proof (induct task stages y rule: rspamd_task_select_processing_stage.raw_induct [rotated, consumes 1])
  case (1 sel t s y)
  from "1.hyps" obtain k where
    b: "(if 31 \<le> k then Some (Inl (Shift_Out_Of_Range k))
          else if s AND push_bit k 1 \<noteq> 0 then Some (Inr (push_bit k 1, t))
          else if push_bit k 1 <s RSPAMD_TASK_STAGE_DONE then
            sel (t\<lparr>processed_stages := processed_stages t OR push_bit k 1\<rparr>) s
          else Some (Inr (RSPAMD_TASK_STAGE_DONE, t))) = Some y"
    by (auto simp: bind_eq_Some_conv)
  show ?case
  proof (intro allI impI)
    fix st' t1' assume y: "y = Inr (st', t1')"
    have e: "t = t\<lparr>processed_stages := processed_stages t\<rparr>" by simp
    show "\<exists>ps. t1' = t\<lparr>processed_stages := ps\<rparr>"
    proof (cases "sel (t\<lparr>processed_stages := processed_stages t OR push_bit k 1\<rparr>) s = Some y")
      case True
      from "1.hyps"(1) [OF True] y
      have "\<exists>ps. t1' = t\<lparr>processed_stages := processed_stages t OR push_bit k 1\<rparr>\<lparr>processed_stages := ps\<rparr>"
        by simp
      then show ?thesis by simp
    next
      case False
      with b y have "t1' = t" by (auto split: if_splits)
      with e show ?thesis by metis
    qed
  qed
qed

lemma select_frame:
  assumes "rspamd_task_select_processing_stage task stages = Some (Inr (st, task1))"
  shows "\<exists>ps. task1 = task\<lparr>processed_stages := ps\<rparr>"
  using select_frame_aux [OF assms] by simp

lemma select_LEARN_PRE:
  assumes "processed_stages t = 255"
  shows "rspamd_task_select_processing_stage t RSPAMD_TASK_PROCESS_ALL =
           Some (Inr (RSPAMD_TASK_STAGE_LEARN_PRE, t))"
proof -
  have a: "\<forall>i. bit (processed_stages t) i \<longrightarrow> i < 8"
    unfolding assms by (rule bits_below) (simp add: mask_eq_exp_minus_1)
  have b: "8 = (0::nat) \<or> bit (processed_stages t) (8 - 1)"
    unfolding assms by simp
  have c: "bit RSPAMD_TASK_PROCESS_ALL 8"
    by (simp add: RSPAMD_TASK_PROCESS_ALL_def bit_mask_iff)
  show ?thesis
    using select_unfold [OF a b, of RSPAMD_TASK_PROCESS_ALL] c
    by (simp add: RSPAMD_TASK_STAGE_LEARN_PRE_def)
qed

text \<open>
  Claim C2, as the code has it. The claim speaks of every task with a pre-result; the
  nested-call guard comes first in \<^verbatim>\<open>rspamd_task_process\<close>, so a call that enters
  with the in-progress flag set returns at once and sets nothing. For a task whose
  in-progress flag is clear and whose pre-result action is not \<^verbatim>\<open>METRIC_ACTION_MAX\<close>,
  the call returns \<^verbatim>\<open>TRUE\<close>, whatever the handlers are; the task it leaves differs from
  the one it got in the terminal bit of \<^verbatim>\<open>processed_stages\<close> only, which is set: no
  handler was called and \<^verbatim>\<open>err\<close> is as it was.
\<close>

theorem pre_result_short_circuit:
  assumes "RSPAMD_TASK_FLAG_PROCESSING \<notin> flags task"
    and "pre_result_action task \<noteq> METRIC_ACTION_MAX"
  shows "\<exists>task'. rspamd_task_process h task stages = Some (Inr (True, task')) \<and>
           task' = task\<lparr>processed_stages := processed_stages task OR RSPAMD_TASK_STAGE_DONE\<rparr> \<and>
           RSPAMD_TASK_IS_PROCESSED task' \<and>
           calls task' = calls task \<and> err task' = err task"
proof (cases "RSPAMD_TASK_IS_PROCESSED task")
  case True
  have "rspamd_task_process h task stages = Some (Inr (True, task))"
    using assms True by (subst rspamd_task_process.simps) simp
  moreover have "task = task\<lparr>processed_stages := processed_stages task OR RSPAMD_TASK_STAGE_DONE\<rparr>"
    using or_DONE_idem [OF True] by (simp add: set_stage_done_def)
  ultimately show ?thesis using True by auto
next
  case False
  have "rspamd_task_process h task stages = Some (Inr (True, set_stage_done task))"
    using assms False by (subst rspamd_task_process.simps) simp
  then show ?thesis
    using processed_set_stage_done [of task] by (simp add: set_stage_done_def)
qed

theorem pre_result_short_circuit_witness:
  "\<exists>task'. rspamd_task_process example_handlers
       (example_task\<lparr>pre_result_action := METRIC_ACTION_REJECT\<rparr>) RSPAMD_TASK_PROCESS_ALL =
         Some (Inr (True, task')) \<and>
     task' = example_task\<lparr>pre_result_action := METRIC_ACTION_REJECT,
               processed_stages := RSPAMD_TASK_STAGE_DONE\<rparr> \<and>
     RSPAMD_TASK_IS_PROCESSED task' \<and> calls task' = [] \<and> err task' = None"
  using pre_result_short_circuit [of "example_task\<lparr>pre_result_action := METRIC_ACTION_REJECT\<rparr>"
      example_handlers RSPAMD_TASK_PROCESS_ALL]
  by (simp add: example_task_def rspamd_task_new_def)

text \<open>
  Claim C2 as stated fails for a nested call: the task below has a pre-result and the
  in-progress flag; the call returns \<^verbatim>\<open>TRUE\<close> and the terminal bit stays clear.
\<close>

theorem pre_result_nested_counterexample:
  "pre_result_action (example_task\<lparr>flags := {RSPAMD_TASK_FLAG_PROCESSING},
       pre_result_action := METRIC_ACTION_REJECT\<rparr>) \<noteq> METRIC_ACTION_MAX \<and>
   rspamd_task_process example_handlers
     (example_task\<lparr>flags := {RSPAMD_TASK_FLAG_PROCESSING},
        pre_result_action := METRIC_ACTION_REJECT\<rparr>) RSPAMD_TASK_PROCESS_ALL =
     Some (Inr (True, example_task\<lparr>flags := {RSPAMD_TASK_FLAG_PROCESSING},
        pre_result_action := METRIC_ACTION_REJECT\<rparr>)) \<and>
   processed_stages (example_task\<lparr>flags := {RSPAMD_TASK_FLAG_PROCESSING},
        pre_result_action := METRIC_ACTION_REJECT\<rparr>) AND RSPAMD_TASK_STAGE_DONE = 0"
  by (subst rspamd_task_process.simps) (simp add: example_task_def rspamd_task_new_def)


text \<open>
  Without a configuration a learn stage that reaches the learner faults on the read of
  \<^verbatim>\<open>task->cfg->lua_state\<close>; the learner is not called.
\<close>

lemma learn_stage_without_cfg:
  assumes "st = RSPAMD_TASK_STAGE_LEARN_PRE \<or> st = RSPAMD_TASK_STAGE_LEARN
        \<or> st = RSPAMD_TASK_STAGE_LEARN_POST"
    and "RSPAMD_TASK_FLAG_LEARN_SPAM \<in> flags task \<or> RSPAMD_TASK_FLAG_LEARN_HAM \<in> flags task"
    and "err task = None" and "cfg task = None"
  shows "rspamd_task_process_switch h st task = Inl Null_Dereference"
proof -
  have "st \<noteq> RSPAMD_TASK_STAGE_READ_MESSAGE" "st \<noteq> RSPAMD_TASK_STAGE_PRE_FILTERS"
    "st \<noteq> RSPAMD_TASK_STAGE_FILTERS" "st \<noteq> RSPAMD_TASK_STAGE_CLASSIFIERS"
    "st \<noteq> RSPAMD_TASK_STAGE_CLASSIFIERS_PRE" "st \<noteq> RSPAMD_TASK_STAGE_CLASSIFIERS_POST"
    "st \<noteq> RSPAMD_TASK_STAGE_COMPOSITES" "st \<noteq> RSPAMD_TASK_STAGE_POST_FILTERS"
    using assms(1)
    by (auto simp: RSPAMD_TASK_STAGE_READ_MESSAGE_def RSPAMD_TASK_STAGE_PRE_FILTERS_def
        RSPAMD_TASK_STAGE_FILTERS_def RSPAMD_TASK_STAGE_CLASSIFIERS_def
        RSPAMD_TASK_STAGE_CLASSIFIERS_PRE_def RSPAMD_TASK_STAGE_CLASSIFIERS_POST_def
        RSPAMD_TASK_STAGE_COMPOSITES_def RSPAMD_TASK_STAGE_POST_FILTERS_def
        RSPAMD_TASK_STAGE_LEARN_PRE_def RSPAMD_TASK_STAGE_LEARN_def RSPAMD_TASK_STAGE_LEARN_POST_def)
  then show ?thesis
    using assms by (auto simp: rspamd_task_process_switch_def)
qed

text \<open>
  Claim C8. The task enters \<^verbatim>\<open>rspamd_task_process\<close> (not nested, not terminal, no
  pre-result), the selector picks one of the three learn stages, learn-spam or
  learn-ham is set and \<^verbatim>\<open>err\<close> is empty. The learner is invoked, which takes a task
  with a configuration (its argument \<^verbatim>\<open>task->cfg->lua_state\<close> is read first), and it
  fails with the error \<open>e\<close>; it is an external function, assumed to leave the flags
  and the error slot of the task alone. Then the call returns, \<^verbatim>\<open>err\<close> is \<open>e\<close>
  exactly when learn-auto is not set (and stays empty when it is), and the terminal
  bit is set in both cases.
\<close>

theorem learn_failure_sets_err_unless_auto:
  assumes entry: "RSPAMD_TASK_FLAG_PROCESSING \<notin> flags task" "\<not> RSPAMD_TASK_IS_PROCESSED task"
      "pre_result_action task = METRIC_ACTION_MAX"
    and sel: "rspamd_task_select_processing_stage
        (task\<lparr>flags := insert RSPAMD_TASK_FLAG_PROCESSING (flags task)\<rparr>) stages =
        Some (Inr (st, task1))"
    and learn_stage: "st = RSPAMD_TASK_STAGE_LEARN_PRE \<or> st = RSPAMD_TASK_STAGE_LEARN
        \<or> st = RSPAMD_TASK_STAGE_LEARN_POST"
    and learn_flag: "RSPAMD_TASK_FLAG_LEARN_SPAM \<in> flags task \<or> RSPAMD_TASK_FLAG_LEARN_HAM \<in> flags task"
    and no_err: "err task = None"
    and has_cfg: "cfg task = Some c"
    and fails: "rspamd_stat_learn h (RSPAMD_TASK_FLAG_LEARN_SPAM \<in> flags task) (classifier task) st
        (note_call (Call_stat_learn st) task1) = ((False, Some e), task2)"
    and frame: "flags task2 = flags task1" "err task2 = err task1"
  shows "\<exists>task'. rspamd_task_process h task stages = Some (Inr (True, task')) \<and>
           (err task' = Some e \<longleftrightarrow> RSPAMD_TASK_FLAG_LEARN_AUTO \<notin> flags task) \<and>
           (err task' = None \<longleftrightarrow> RSPAMD_TASK_FLAG_LEARN_AUTO \<in> flags task) \<and>
           RSPAMD_TASK_IS_PROCESSED task'"
proof -
  from select_frame [OF sel] obtain ps where
    t1: "task1 = task\<lparr>flags := insert RSPAMD_TASK_FLAG_PROCESSING (flags task), processed_stages := ps\<rparr>"
    by auto
  have f1: "flags task1 = insert RSPAMD_TASK_FLAG_PROCESSING (flags task)"
    and e1: "err task1 = None" and c1: "classifier task1 = classifier task"
    and g1: "cfg task1 = Some c"
    using t1 no_err has_cfg by simp_all
  have st_ne: "st \<noteq> RSPAMD_TASK_STAGE_READ_MESSAGE" "st \<noteq> RSPAMD_TASK_STAGE_PRE_FILTERS"
    "st \<noteq> RSPAMD_TASK_STAGE_FILTERS" "st \<noteq> RSPAMD_TASK_STAGE_CLASSIFIERS"
    "st \<noteq> RSPAMD_TASK_STAGE_CLASSIFIERS_PRE" "st \<noteq> RSPAMD_TASK_STAGE_CLASSIFIERS_POST"
    "st \<noteq> RSPAMD_TASK_STAGE_COMPOSITES" "st \<noteq> RSPAMD_TASK_STAGE_POST_FILTERS"
    using learn_stage
    by (auto simp: RSPAMD_TASK_STAGE_READ_MESSAGE_def RSPAMD_TASK_STAGE_PRE_FILTERS_def
        RSPAMD_TASK_STAGE_FILTERS_def RSPAMD_TASK_STAGE_CLASSIFIERS_def
        RSPAMD_TASK_STAGE_CLASSIFIERS_PRE_def RSPAMD_TASK_STAGE_CLASSIFIERS_POST_def
        RSPAMD_TASK_STAGE_COMPOSITES_def RSPAMD_TASK_STAGE_POST_FILTERS_def
        RSPAMD_TASK_STAGE_LEARN_PRE_def RSPAMD_TASK_STAGE_LEARN_def RSPAMD_TASK_STAGE_LEARN_POST_def)
  define task3 where "task3 = set_stage_done
       (if RSPAMD_TASK_FLAG_LEARN_AUTO \<notin> flags task2 then task2\<lparr>err := Some e\<rparr> else task2)"
  have sw: "rspamd_task_process_switch h st task1 = Inr (True, task3)"
    unfolding rspamd_task_process_switch_def task3_def
    using st_ne learn_stage learn_flag fails f1 e1 c1 g1 by auto
  have p3: "RSPAMD_TASK_IS_PROCESSED task3"
    unfolding task3_def by (rule processed_set_stage_done)
  define task4 where "task4 = (if RSPAMD_TASK_IS_SKIPPED task3 then set_stage_done task3 else task3)"
  have t4: "task4 = task3"
    unfolding task4_def using or_DONE_idem [OF p3] by simp
  define task5 where "task5 = task3\<lparr>flags := flags task3 - {RSPAMD_TASK_FLAG_PROCESSING}\<rparr>"
  have p5: "RSPAMD_TASK_IS_PROCESSED task5"
    using p3 by (simp add: task5_def RSPAMD_TASK_IS_PROCESSED_def)
  have r: "rspamd_task_process h task stages = Some (Inr (True, task5))"
    using entry sel sw p5 t4 
    by (subst rspamd_task_process.simps) (simp add: task4_def [symmetric] task5_def [symmetric] Let_def)
  have auto_iff: "RSPAMD_TASK_FLAG_LEARN_AUTO \<in> flags task2 \<longleftrightarrow> RSPAMD_TASK_FLAG_LEARN_AUTO \<in> flags task"
    using frame(1) f1 by simp
  have e5: "err task5 = (if RSPAMD_TASK_FLAG_LEARN_AUTO \<in> flags task then None else Some e)"
    using auto_iff frame(2) e1 by (simp add: task5_def task3_def set_stage_done_def)
  show ?thesis
    using r e5 p5 by auto
qed


theorem learn_failure_sets_err_unless_auto_witness:
  "(\<exists>task'. rspamd_task_process example_handlers example_learn_task RSPAMD_TASK_PROCESS_ALL =
        Some (Inr (True, task')) \<and>
      err task' = Some example_learn_error \<and> RSPAMD_TASK_IS_PROCESSED task') \<and>
   (\<exists>task'. rspamd_task_process example_handlers
        (example_learn_task\<lparr>flags := {RSPAMD_TASK_FLAG_LEARN_SPAM, RSPAMD_TASK_FLAG_LEARN_AUTO}\<rparr>)
        RSPAMD_TASK_PROCESS_ALL = Some (Inr (True, task')) \<and>
      err task' = None \<and> RSPAMD_TASK_IS_PROCESSED task')"
proof -
  have np: "\<not> RSPAMD_TASK_IS_PROCESSED (example_learn_task\<lparr>flags := F\<rparr>)" for F
    by (simp add: IS_PROCESSED_iff_bit example_learn_task_def)
  have gc: "cfg (example_learn_task\<lparr>flags := F\<rparr>) = Some example_config" for F
    by (simp add: example_learn_task_def example_cfg_task_def rspamd_task_new_def)
  have gc0: "cfg example_learn_task = Some example_config"
    using gc [of "flags example_learn_task"] by simp
  have np0: "\<not> RSPAMD_TASK_IS_PROCESSED example_learn_task"
    using np [of "flags example_learn_task"] by simp
  have nerr: "err example_learn_task = None"
    and npre: "pre_result_action example_learn_task = METRIC_ACTION_MAX"
    and fl: "flags example_learn_task = {RSPAMD_TASK_FLAG_LEARN_SPAM}"
    by (simp_all add: example_learn_task_def example_cfg_task_def rspamd_task_new_def)
  let ?t1 = "example_learn_task\<lparr>flags := insert RSPAMD_TASK_FLAG_PROCESSING (flags example_learn_task)\<rparr>"
  have s1: "rspamd_task_select_processing_stage ?t1 RSPAMD_TASK_PROCESS_ALL =
      Some (Inr (RSPAMD_TASK_STAGE_LEARN_PRE, ?t1))"
    by (rule select_LEARN_PRE) (simp add: example_learn_task_def)
  have w1: "\<exists>task'. rspamd_task_process example_handlers example_learn_task RSPAMD_TASK_PROCESS_ALL =
        Some (Inr (True, task')) \<and>
      (err task' = Some example_learn_error \<longleftrightarrow> RSPAMD_TASK_FLAG_LEARN_AUTO \<notin> flags example_learn_task) \<and>
      (err task' = None \<longleftrightarrow> RSPAMD_TASK_FLAG_LEARN_AUTO \<in> flags example_learn_task) \<and>
      RSPAMD_TASK_IS_PROCESSED task'"
    by (rule learn_failure_sets_err_unless_auto [OF _ np0 npre s1, where ?task2.0 = "note_call (Call_stat_learn RSPAMD_TASK_STAGE_LEARN_PRE) ?t1"
          and c = example_config])
       (simp_all add: fl nerr gc0 example_handlers_def note_call_def)
  let ?a = "example_learn_task\<lparr>flags := {RSPAMD_TASK_FLAG_LEARN_SPAM, RSPAMD_TASK_FLAG_LEARN_AUTO}\<rparr>"
  let ?t2 = "?a\<lparr>flags := insert RSPAMD_TASK_FLAG_PROCESSING (flags ?a)\<rparr>"
  have s2: "rspamd_task_select_processing_stage ?t2 RSPAMD_TASK_PROCESS_ALL =
      Some (Inr (RSPAMD_TASK_STAGE_LEARN_PRE, ?t2))"
    by (rule select_LEARN_PRE) (simp add: example_learn_task_def)
  have w2: "\<exists>task'. rspamd_task_process example_handlers ?a RSPAMD_TASK_PROCESS_ALL =
        Some (Inr (True, task')) \<and>
      (err task' = Some example_learn_error \<longleftrightarrow> RSPAMD_TASK_FLAG_LEARN_AUTO \<notin> flags ?a) \<and>
      (err task' = None \<longleftrightarrow> RSPAMD_TASK_FLAG_LEARN_AUTO \<in> flags ?a) \<and>
      RSPAMD_TASK_IS_PROCESSED task'"
    by (rule learn_failure_sets_err_unless_auto [OF _ np _ s2, where ?task2.0 = "note_call (Call_stat_learn RSPAMD_TASK_STAGE_LEARN_PRE) ?t2"
          and c = example_config])
       (simp_all add: fl nerr npre gc example_handlers_def note_call_def)
  show ?thesis
    using w1 w2 by (auto simp: fl)
qed

section \<open>Properties of the message loader\<close>

lemma example_loader_sel:
  "rspamd_protocol_handle_headers example_loader = (\<lambda>m task. task)"
  "rspamd_decode_url example_loader = (\<lambda>s. s)"
  "os_shm_open example_loader =
     (\<lambda>p. if p = ''/seg'' then Inr 3 else Inl ''No such file or directory'')"
  "os_fstat example_loader = (\<lambda>fd. Inr 10)"
  "os_stat example_loader = (\<lambda>p. Inl ''No such file or directory'')"
  "os_open example_loader = (\<lambda>p. Inl ''No such file or directory'')"
  "os_mmap example_loader = (\<lambda>n fd. Inr 4096)"
  "rspamd_strtoul example_loader = example_strtoul"
  "ucl_parser_add_chunk example_loader = (\<lambda>p n. None)"
  "rspamd_protocol_handle_control example_loader = (\<lambda>obj task. task)"
  by (simp_all add: example_loader_def)

lemma example_strtoul_values: "example_strtoul ''100'' 0 = 100" "example_strtoul ''11'' 10 = 11"
  by (simp_all add: example_strtoul_def)

lemma example_filepath: "task_filepath example_loader ''/seg'' = ''/seg''"
  by (simp add: task_filepath_def example_loader_sel c_str_def PATH_MAX_def)

lemma shm_out_of_range_fails_without_err:
  assumes "request_headers task ''shm'' = Some tok"
    and "os_shm_open env (task_filepath env tok) = Inr fd"
    and "os_fstat env fd = Inr st_size"
    and "os_mmap env st_size fd = Inr map_p"
    and "(\<exists>t. request_headers task ''shm-offset'' = Some t \<and> rspamd_strtoul env t 0 > st_size) \<or>
         (\<exists>t. request_headers task ''shm-length'' = Some t \<and>
              rspamd_strtoul env t st_size > st_size)"
  shows "rspamd_task_load_message env task None start len =
           (False, note_call (Sys_munmap map_p st_size) (note_call (Sys_close fd) task))"
  using assms
  by (auto simp: rspamd_task_load_message_def rspamd_task_load_headers_def
      rspamd_task_load_shm_def Let_def note_call_def split: option.splits)

lemma take_bit_32_small:
  assumes "(len::gsize) < 2 ^ 32" shows "take_bit 32 len = len"
proof -
  have "unat len < 2 ^ 32"
    using assms by (simp add: word_less_nat_alt)
  then have "unat (take_bit 32 len) = unat len"
    by (simp add: unsigned_take_bit_eq take_bit_nat_eq_self)
  then show ?thesis
    by (simp only: word_unat_eq_iff)
qed

lemma ucast_guint_small:
  assumes "(len::gsize) < 2 ^ 32"
  shows "(ucast (ucast len :: guint) :: gsize) = len"
  using take_bit_32_small [OF assms] by (simp add: unsigned_ucast_eq)

lemma ucast_guint_nonzero:
  assumes "(len::gsize) < 2 ^ 32" "len \<noteq> 0"
  shows "(ucast len :: guint) \<noteq> 0"
proof
  assume "(ucast len :: guint) = 0"
  then have "(ucast (ucast len :: guint) :: gsize) = 0" by simp
  with ucast_guint_small [OF assms(1)] assms(2) show False by simp
qed

lemma wrapped_control_len: "((len::gsize) - mlen > len) = (len < mlen)"
  using word_sub_le_iff [of len mlen] by (simp add: not_le [symmetric])

lemma load_message_plain:
  assumes "rspamd_task_load_headers env task0 msg_p = task"
    and "request_headers task ''shm'' = None" "request_headers task ''file'' = None"
      "request_headers task ''path'' = None"
  shows "rspamd_task_load_message env task0 msg_p start len =
           rspamd_task_load_plain env task start len"
  using assms by (simp add: rspamd_task_load_message_def)

lemma example_control_task_sel:
  "request_headers (example_control_task\<lparr>message_len := n\<rparr>) = (\<lambda>k. None)"
  "flags (example_control_task\<lparr>message_len := n\<rparr>) = {RSPAMD_TASK_FLAG_HAS_CONTROL}"
  "err (example_control_task\<lparr>message_len := n\<rparr>) = None"
  "msg (example_control_task\<lparr>message_len := n\<rparr>) = \<lparr>wbegin = 0, wlen = 0\<rparr>"
  "request_headers example_control_task = (\<lambda>k. None)"
  "flags example_control_task = {RSPAMD_TASK_FLAG_HAS_CONTROL}"
  "err example_control_task = None"
  "message_len example_control_task = 0"
  "msg example_control_task = \<lparr>wbegin = 0, wlen = 0\<rparr>"
  by (simp_all add: example_control_task_def example_task_def rspamd_task_new_def)

text \<open>
  Claim C4 on the code. The segment \<^verbatim>\<open>/seg\<close> has 10 bytes. With the header
  \<^verbatim>\<open>shm-offset: 100\<close>, and with the header \<^verbatim>\<open>shm-length: 11\<close>, the load returns
  \<^verbatim>\<open>FALSE\<close> after unmapping the segment, and \<^verbatim>\<open>err\<close> of the task is still empty: these
  two exits log the failure and do not call \<^verbatim>\<open>g_set_error\<close>, which the three exits
  before them (open, stat, map) do.
\<close>

theorem shm_offset_beyond_segment_no_err:
  "rspamd_task_load_message example_loader
     (example_task\<lparr>request_headers := [''shm'' \<mapsto> ''/seg'', ''shm-offset'' \<mapsto> ''100'']\<rparr>)
     None 0 0 =
   (False, example_task\<lparr>request_headers := [''shm'' \<mapsto> ''/seg'', ''shm-offset'' \<mapsto> ''100''],
                calls := [Sys_close 3, Sys_munmap 4096 10]\<rparr>) \<and>
   err (snd (rspamd_task_load_message example_loader
     (example_task\<lparr>request_headers := [''shm'' \<mapsto> ''/seg'', ''shm-offset'' \<mapsto> ''100'']\<rparr>)
     None 0 0)) = None \<and>
   rspamd_task_load_message example_loader
     (example_task\<lparr>request_headers := [''shm'' \<mapsto> ''/seg'', ''shm-length'' \<mapsto> ''11'']\<rparr>)
     None 0 0 =
   (False, example_task\<lparr>request_headers := [''shm'' \<mapsto> ''/seg'', ''shm-length'' \<mapsto> ''11''],
                calls := [Sys_close 3, Sys_munmap 4096 10]\<rparr>) \<and>
   err (snd (rspamd_task_load_message example_loader
     (example_task\<lparr>request_headers := [''shm'' \<mapsto> ''/seg'', ''shm-length'' \<mapsto> ''11'']\<rparr>)
     None 0 0)) = None"
  by (simp add: rspamd_task_load_message_def rspamd_task_load_headers_def rspamd_task_load_shm_def
      example_filepath example_strtoul_values example_loader_sel
      note_call_def example_task_def rspamd_task_new_def Let_def)
text \<open>
  Claim C5, as the code has it. The load is inline (no \<^verbatim>\<open>shm\<close>, \<^verbatim>\<open>file\<close> or \<^verbatim>\<open>path\<close>
  header once the headers are handled), the has-control-chunk flag is set, and the
  unsigned difference \<^verbatim>\<open>len - message_len\<close> exceeds \<^verbatim>\<open>len\<close> (it wrapped, the declared
  message length is the larger one); no error is recorded yet. The load returns
  \<^verbatim>\<open>FALSE\<close> with the protocol error \<^verbatim>\<open>Invalid length\<close>. The window \<^verbatim>\<open>msg\<close> is by then
  the whole inline input, and the empty-message flag is on when that input is empty:
  both are assigned before the check. Nothing else of the task changes; the window is
  not advanced and no control chunk is parsed.
\<close>

theorem control_length_check:
  assumes hdr: "rspamd_task_load_headers env task0 msg_p = task"
    and inline: "request_headers task ''shm'' = None" "request_headers task ''file'' = None"
      "request_headers task ''path'' = None"
    and ctl: "RSPAMD_TASK_FLAG_HAS_CONTROL \<in> flags task"
    and wrap: "len - message_len task > len"
    and no_err: "err task = None"
  shows "rspamd_task_load_message env task0 msg_p start len =
     (False,
      task\<lparr>msg := \<lparr>wbegin = start, wlen = len\<rparr>,
           flags := (if len = 0 then insert RSPAMD_TASK_FLAG_EMPTY (flags task) else flags task),
           err := Some \<lparr>domain = rspamd_task_quark, code = RSPAMD_PROTOCOL_ERROR,
                         message = ''Invalid length''\<rparr>\<rparr>)"
proof -
  have lt: "len < message_len task"
    using wrap by (simp only: wrapped_control_len)
  show ?thesis
    unfolding load_message_plain [OF hdr inline]
    using ctl lt no_err
    by (auto simp: rspamd_task_load_plain_def g_set_error_def Let_def word_greater_zero_iff)
qed

theorem control_length_check_witness:
  "rspamd_task_load_message example_loader (example_control_task\<lparr>message_len := 5\<rparr>) None 4096 3 =
     (False,
      example_control_task\<lparr>message_len := 5, msg := \<lparr>wbegin = 4096, wlen = 3\<rparr>,
           err := Some \<lparr>domain = rspamd_task_quark, code = RSPAMD_PROTOCOL_ERROR,
                         message = ''Invalid length''\<rparr>\<rparr>)"
  using control_length_check [of example_loader "example_control_task\<lparr>message_len := 5\<rparr>" None
      "example_control_task\<lparr>message_len := 5\<rparr>" 3 4096]
  by (simp add: rspamd_task_load_headers_def example_control_task_sel)

text \<open>
  Claim C5 as stated fails in its last part: at the input below the length check
  fails, and the window \<^verbatim>\<open>msg\<close> of the task is no longer the one it had at entry.
\<close>

theorem control_length_check_mutates_counterexample:
  "RSPAMD_TASK_FLAG_HAS_CONTROL \<in> flags (example_control_task\<lparr>message_len := 5\<rparr>) \<and>
   (3::gsize) - message_len (example_control_task\<lparr>message_len := 5\<rparr>) > 3 \<and>
   fst (rspamd_task_load_message example_loader
          (example_control_task\<lparr>message_len := 5\<rparr>) None 4096 3) = False \<and>
   msg (snd (rspamd_task_load_message example_loader
          (example_control_task\<lparr>message_len := 5\<rparr>) None 4096 3)) =
     \<lparr>wbegin = 4096, wlen = 3\<rparr> \<and>
   msg (example_control_task\<lparr>message_len := 5\<rparr>) = \<lparr>wbegin = 0, wlen = 0\<rparr> \<and>
   msg (snd (rspamd_task_load_message example_loader
          (example_control_task\<lparr>message_len := 5\<rparr>) None 4096 3)) \<noteq>
     msg (example_control_task\<lparr>message_len := 5\<rparr>)"
  by (simp add: rspamd_task_load_message_def rspamd_task_load_headers_def
      rspamd_task_load_plain_def g_set_error_def Let_def example_control_task_sel)

text \<open>
  The plain branch with the has-control-chunk flag. The protocol layer's control
  handler is external; \<open>frame\<close> is what the lemmas need of it: it leaves the window
  \<^verbatim>\<open>msg\<close> and the empty-message flag alone.
\<close>

lemma load_plain_flag:
  assumes ctl: "RSPAMD_TASK_FLAG_HAS_CONTROL \<in> flags task"
    and frame: "\<forall>obj t. msg (rspamd_protocol_handle_control env obj t) = msg t \<and>
        (RSPAMD_TASK_FLAG_EMPTY \<in> flags (rspamd_protocol_handle_control env obj t) \<longleftrightarrow>
         RSPAMD_TASK_FLAG_EMPTY \<in> flags t)"
  shows "RSPAMD_TASK_FLAG_EMPTY \<in> flags (snd (rspamd_task_load_plain env task start len)) \<longleftrightarrow>
           RSPAMD_TASK_FLAG_EMPTY \<in> flags task \<or> len = 0"
  using ctl frame
  by (auto simp: rspamd_task_load_plain_def g_set_error_def Let_def note_call_def
      split: option.splits)

lemma load_plain_whole_control:
  assumes ctl: "RSPAMD_TASK_FLAG_HAS_CONTROL \<in> flags task"
    and whole: "message_len task = 0" "len \<noteq> 0" "len < 2 ^ 32"
    and frame: "\<forall>obj t. msg (rspamd_protocol_handle_control env obj t) = msg t \<and>
        (RSPAMD_TASK_FLAG_EMPTY \<in> flags (rspamd_protocol_handle_control env obj t) \<longleftrightarrow>
         RSPAMD_TASK_FLAG_EMPTY \<in> flags t)"
  shows "rspamd_task_load_plain env task start len =
     (True,
      (case ucl_parser_add_chunk env start (ucast len) of
         None \<Rightarrow> task\<lparr>msg := \<lparr>wbegin = start, wlen = len\<rparr>\<rparr>
       | Some control_obj \<Rightarrow>
           rspamd_protocol_handle_control env control_obj
             (note_call Call_handle_control (task\<lparr>msg := \<lparr>wbegin = start, wlen = len\<rparr>\<rparr>)))
      \<lparr>msg := \<lparr>wbegin = start + len, wlen = 0\<rparr>\<rparr>)"
proof -
  have nz: "(ucast len :: guint) \<noteq> 0"
    by (rule ucast_guint_nonzero [OF whole(3,2)])
  then have pos: "(ucast len :: guint) > 0"
    by (simp add: word_greater_zero_iff)
  have roundtrip: "(ucast (ucast len :: guint) :: gsize) = len"
    by (rule ucast_guint_small [OF whole(3)])
  show ?thesis
    using ctl whole(1,2) frame pos roundtrip
    by (auto simp: rspamd_task_load_plain_def Let_def note_call_def split: option.splits)
qed

text \<open>
  Claim C9, as the code has it. An inline load with the has-control-chunk flag, the
  control handler leaving the window and the empty-message flag alone. The
  empty-message flag is decided on the length of the whole inline input, before the
  control chunk is taken off: after the load it is on exactly when it was on before
  or that length is 0, whatever the declared message length is and whether the load
  succeeds. When the declared message length is 0 and the input is not empty and no
  longer than the 32-bit \<^verbatim>\<open>control_len\<close> holds, the whole input is the control chunk:
  the load succeeds, the chunk at the start of the input, of the length of the input,
  goes to the parser and, when it parses, to the control handler, and the window the
  load leaves is empty, at the end of the input. With the first part, the flag is
  not set by that load although its final window is empty.
\<close>

theorem empty_flag_before_control_chunk:
  assumes hdr: "rspamd_task_load_headers env task0 msg_p = task"
    and inline: "request_headers task ''shm'' = None" "request_headers task ''file'' = None"
      "request_headers task ''path'' = None"
    and ctl: "RSPAMD_TASK_FLAG_HAS_CONTROL \<in> flags task"
    and frame: "\<forall>obj t. msg (rspamd_protocol_handle_control env obj t) = msg t \<and>
        (RSPAMD_TASK_FLAG_EMPTY \<in> flags (rspamd_protocol_handle_control env obj t) \<longleftrightarrow>
         RSPAMD_TASK_FLAG_EMPTY \<in> flags t)"
  shows "(RSPAMD_TASK_FLAG_EMPTY \<in> flags (snd (rspamd_task_load_message env task0 msg_p start len))
            \<longleftrightarrow> RSPAMD_TASK_FLAG_EMPTY \<in> flags task \<or> len = 0) \<and>
         (message_len task = 0 \<and> len \<noteq> 0 \<and> len < 2 ^ 32 \<longrightarrow>
            rspamd_task_load_message env task0 msg_p start len =
              (True,
               (case ucl_parser_add_chunk env start (ucast len) of
                  None \<Rightarrow> task\<lparr>msg := \<lparr>wbegin = start, wlen = len\<rparr>\<rparr>
                | Some control_obj \<Rightarrow>
                    rspamd_protocol_handle_control env control_obj
                      (note_call Call_handle_control
                         (task\<lparr>msg := \<lparr>wbegin = start, wlen = len\<rparr>\<rparr>)))
               \<lparr>msg := \<lparr>wbegin = start + len, wlen = 0\<rparr>\<rparr>))"
proof (intro conjI impI)
  show "RSPAMD_TASK_FLAG_EMPTY \<in> flags (snd (rspamd_task_load_message env task0 msg_p start len))
            \<longleftrightarrow> RSPAMD_TASK_FLAG_EMPTY \<in> flags task \<or> len = 0"
    unfolding load_message_plain [OF hdr inline]
    by (rule load_plain_flag [OF ctl frame])
next
  assume whole: "message_len task = 0 \<and> len \<noteq> 0 \<and> len < 2 ^ 32"
  show "rspamd_task_load_message env task0 msg_p start len =
              (True,
               (case ucl_parser_add_chunk env start (ucast len) of
                  None \<Rightarrow> task\<lparr>msg := \<lparr>wbegin = start, wlen = len\<rparr>\<rparr>
                | Some control_obj \<Rightarrow>
                    rspamd_protocol_handle_control env control_obj
                      (note_call Call_handle_control
                         (task\<lparr>msg := \<lparr>wbegin = start, wlen = len\<rparr>\<rparr>)))
               \<lparr>msg := \<lparr>wbegin = start + len, wlen = 0\<rparr>\<rparr>)"
    unfolding load_message_plain [OF hdr inline]
    using whole by (intro load_plain_whole_control [OF ctl _ _ _ frame]) simp_all
qed

theorem empty_flag_before_control_chunk_witness:
  "RSPAMD_TASK_FLAG_EMPTY \<notin>
     flags (snd (rspamd_task_load_message example_loader example_control_task None 4096 3)) \<and>
   rspamd_task_load_message example_loader example_control_task None 4096 3 =
     (True, example_control_task\<lparr>msg := \<lparr>wbegin = 4099, wlen = 0\<rparr>\<rparr>) \<and>
   RSPAMD_TASK_FLAG_EMPTY \<in>
     flags (snd (rspamd_task_load_message example_loader example_control_task None 4096 0))"
  using empty_flag_before_control_chunk [where env = example_loader
      and ?task0.0 = example_control_task and msg_p = None and task = example_control_task
      and start = 4096 and len = 3]
    empty_flag_before_control_chunk [where env = example_loader
      and ?task0.0 = example_control_task and msg_p = None and task = example_control_task
      and start = 4096 and len = 0]
  by (simp add: rspamd_task_load_headers_def example_control_task_sel example_loader_sel)

text \<open>
  Claim C9 as stated fails in its last part when the input is longer than the 32-bit
  \<^verbatim>\<open>control_len\<close> holds. At the input below the load is inline, the has-control-chunk
  flag is set, the declared message length is 0 and the input has 4294967299 bytes,
  so the whole input is a control chunk. The load succeeds and does not set the
  empty-message flag, but \<^verbatim>\<open>control_len\<close> is 3: the window it leaves starts 3 bytes
  into the input and has 4294967296 bytes, it is not empty.
\<close>

theorem control_chunk_beyond_guint_counterexample:
  "RSPAMD_TASK_FLAG_HAS_CONTROL \<in> flags example_control_task \<and>
   message_len example_control_task = 0 \<and>
   (0::gsize) < 4294967299 \<and>
   fst (rspamd_task_load_message example_loader example_control_task None 4096 4294967299) = True \<and>
   RSPAMD_TASK_FLAG_EMPTY \<notin>
     flags (snd (rspamd_task_load_message example_loader example_control_task None 4096 4294967299)) \<and>
   msg (snd (rspamd_task_load_message example_loader example_control_task None 4096 4294967299)) =
     \<lparr>wbegin = 4099, wlen = 4294967296\<rparr> \<and>
   wlen (msg (snd (rspamd_task_load_message example_loader example_control_task None 4096
     4294967299))) \<noteq> 0"
  by (simp add: rspamd_task_load_message_def rspamd_task_load_headers_def
      rspamd_task_load_plain_def Let_def example_control_task_sel example_loader_sel)

section \<open>Properties of the principal recipient\<close>

lemma principal_recipient_empty_envelope:
  assumes "pool_variables task ''recipient'' = None" "deliver_to task = None"
    and "rcpt_envelope task = Some []"
  shows "rspamd_task_get_principal_recipient task = Inl (Index_Out_Of_Bounds 0 0)"
  using assms by (simp add: rspamd_task_get_principal_recipient_def g_ptr_array_index_def)

text \<open>With no envelope recipient array at all the MIME recipient is taken, in lower case.\<close>

lemma principal_recipient_mime:
  "map_sum id fst (rspamd_task_get_principal_recipient
     (example_task\<lparr>rcpt_envelope := None, rcpt_mime := Some [IA_Mailbox ''User@Example.org'']\<rparr>)) =
   Inr (Some ''user@example.org'')"
  by code_simp


text \<open>
  Claim C7 on the code. The task has no cached recipient and no \<^verbatim>\<open>deliver_to\<close>; its
  \<^verbatim>\<open>rcpt_envelope\<close> array is present and empty, and it has a MIME recipient. The
  function tests the array pointer only and reads element 0 of the empty array: the
  read is out of bounds, and the MIME recipient is not reached.
\<close>

theorem principal_recipient_empty_envelope_fault:
  "rspamd_task_get_principal_recipient
     (example_task\<lparr>rcpt_envelope := Some [], rcpt_mime := Some [IA_Mailbox ''User@Example.org'']\<rparr>) =
   Inl (Index_Out_Of_Bounds 0 0)"
  by (simp add: rspamd_task_get_principal_recipient_def g_ptr_array_index_def
      example_task_def rspamd_task_new_def)

section \<open>Properties of the log formatter\<close>

text \<open>
  Claim C3 on the code. Rendered without a limit, eight addresses give all eight
  entries and then the dots, and nine addresses give eight entries, a comma and the
  dots: the test \<^verbatim>\<open>i >= max_log_elts\<close> comes after element \<^verbatim>\<open>i\<close> is appended, so
  the entry of index 7, the eighth, is printed before the loop stops. This holds for
  the envelope list and for the MIME list.
\<close>

theorem addr_list_prints_eight:
  "rspamd_task_write_addr_list example_rcpts8 (- 1) (example_item RSPAMD_LOG_SMTP_RCPTS) [] =
     Inr ''a,b,c,d,e,f,g,h...'' \<and>
   rspamd_task_write_addr_list example_rcpts9 (- 1) (example_item RSPAMD_LOG_SMTP_RCPTS) [] =
     Inr ''a,b,c,d,e,f,g,h,...'' \<and>
   rspamd_task_write_ialist example_mime8 (- 1) (example_item RSPAMD_LOG_MIME_RCPTS) [] =
     ''a,b,c,d,e,f,g,h...'' \<and>
   rspamd_task_write_ialist example_mime9 (- 1) (example_item RSPAMD_LOG_MIME_RCPTS) [] =
     ''a,b,c,d,e,f,g,h,...''"
  by code_simp

text \<open>
  The arithmetic of the comparison function. A tenth is not a \<^verbatim>\<open>double\<close>, and an odd
  integer above \<open>2 ^ 53\<close> goes to its even neighbour. With the doubles nearest to 0.1
  and 0.3 as scores the comparison function returns 199, not 200; with scores that
  differ by more than the \<^verbatim>\<open>gint\<close> holds thousandths, the conversion is undefined.
\<close>

lemma double_round_examples:
  "double_round (1 / 10) = 3602879701896397 / 36028797018963968 \<and>
   double_round 9007199254740993 = 9007199254740992 \<and>
   double_round 9007199254740995 = 9007199254740996 \<and>
   double_round (2 + 1 / 2048) = 2 + 1 / 2048"
  by code_simp

lemma compare_log_sym_examples:
  "rspamd_task_compare_log_sym (example_sym ''A'' (double_round (1 / 10)))
     (example_sym ''B'' (double_round (3 / 10))) = Inr 199 \<and>
   rspamd_task_compare_log_sym (example_sym ''A'' 3) (example_sym ''B'' (- 3)) = Inr (- 1) \<and>
   rspamd_task_compare_log_sym (example_sym ''A'' 0) (example_sym ''B'' 3000000) =
     Inl Conversion_Out_Of_Range"
  by code_simp

text \<open>
  The scores 2 and 2 + 1/2048 are doubles, and so are their difference and its
  product with 1000: between these two symbols the comparison function rounds nothing.
\<close>

lemma close_scores_exact:
  "double_round 2 = 2 \<and> double_round (2 + 1 / 2048) = 2 + 1 / 2048 \<and>
   double_round (2 + 1 / 2048 - 2) = 1 / 2048 \<and>
   double_round (1 / 2048 * 1000) = 125 / 256 \<and>
   double_to_gint (125 / 256) = Inr 0 \<and> double_to_gint (- (125 / 256)) = Inr 0"
  by code_simp

text \<open>Scenario 6 of the specification: the order and the rendering with scores.\<close>

lemma scenario6:
  "rspamd_task_log_metric_res example_log_env
     (example_result [example_sym ''A'' 1, example_sym ''B'' (- 3), example_sym ''C'' 3])
     \<lparr>lf_type = RSPAMD_LOG_SYMBOLS, lf_flags = {RSPAMD_LOG_FLAG_SYMBOLS_SCORES}, lf_data = None\<rparr> =
   Inr ''B(-3.00),C(3.00),A(1.00)''"
  by code_simp

text \<open>
  Claim C6 on the code. The symbols \<^verbatim>\<open>A\<close> (score 2) and \<^verbatim>\<open>B\<close> (score 2 + 1/2048)
  differ in absolute score by less than a thousandth. The comparison function
  converts the difference times 1000 to an integer, which is 0 in both directions:
  the two symbols compare equal although \<^verbatim>\<open>B\<close> has the larger absolute score and the
  names differ. The rendering then follows the order in which the hash table
  delivers the symbols: \<^verbatim>\<open>A,B\<close> for one order and \<^verbatim>\<open>B,A\<close> for the other. (Both scores
  and every intermediate value are binary fractions that a \<^verbatim>\<open>double\<close> holds exactly:
  no operation rounds.)
\<close>

theorem symbols_close_scores_unsorted:
  "\<bar>score (example_sym ''A'' 2)\<bar> < \<bar>score (example_sym ''B'' (2 + 1 / 2048))\<bar> \<and>
   rspamd_task_compare_log_sym (example_sym ''A'' 2) (example_sym ''B'' (2 + 1 / 2048)) = Inr 0 \<and>
   rspamd_task_compare_log_sym (example_sym ''B'' (2 + 1 / 2048)) (example_sym ''A'' 2) = Inr 0 \<and>
   rspamd_task_log_metric_res example_log_env
     (example_result [example_sym ''A'' 2, example_sym ''B'' (2 + 1 / 2048)])
     (example_item RSPAMD_LOG_SYMBOLS) = Inr ''A,B'' \<and>
   rspamd_task_log_metric_res example_log_env
     (example_result [example_sym ''B'' (2 + 1 / 2048), example_sym ''A'' 2])
     (example_item RSPAMD_LOG_SYMBOLS) = Inr ''B,A''"
  by code_simp

lemma metric_res_data:
  "rspamd_task_log_metric_res env task (lf\<lparr>lf_data := d\<rparr>) = rspamd_task_log_metric_res env task lf"
  by (simp add: rspamd_task_log_metric_res_def split: option.splits sum.splits)

lemma shape_finish:
  fixes f :: "string option \<Rightarrow> string \<Rightarrow> c_fault + string"
  assumes "\<And>d logbuf. f d logbuf = Inr (log_variable_finish (lf\<lparr>lf_data := d\<rparr>) logbuf v)"
  shows "(\<exists>fault. \<forall>d logbuf. f d logbuf = Inl fault) \<or>
   (\<exists>var. \<forall>d logbuf. f d logbuf =
        Inr (if var = [] then logbuf else rspamd_task_log_write_var logbuf var d))"
  by (rule disjI2, rule exI [of _ v]) (simp add: assms log_variable_finish_def)

lemma shape_ialist:
  fixes f :: "string option \<Rightarrow> string \<Rightarrow> c_fault + string"
  assumes "\<And>d logbuf. f d logbuf = Inr (rspamd_task_write_ialist ialist n (lf\<lparr>lf_data := d\<rparr>) logbuf)"
  shows "(\<exists>fault. \<forall>d logbuf. f d logbuf = Inl fault) \<or>
   (\<exists>var. \<forall>d logbuf. f d logbuf =
        Inr (if var = [] then logbuf else rspamd_task_log_write_var logbuf var d))"
  by (rule disjI2,
      rule exI [of _ "write_ialist_loop ialist (if n \<le> 0 then int (length ialist) else n) 0 []"])
     (simp add: assms rspamd_task_write_ialist_def Let_def)

lemma shape_fault:
  fixes f :: "string option \<Rightarrow> string \<Rightarrow> c_fault + string"
  assumes "\<And>d logbuf. f d logbuf = Inl fault"
  shows "(\<exists>fault. \<forall>d logbuf. f d logbuf = Inl fault) \<or>
   (\<exists>var. \<forall>d logbuf. f d logbuf =
        Inr (if var = [] then logbuf else rspamd_task_log_write_var logbuf var d))"
  by (rule disjI1, rule exI [of _ fault]) (simp add: assms)

lemma shape_metric:
  fixes f :: "string option \<Rightarrow> string \<Rightarrow> c_fault + string"
  assumes "\<And>d logbuf. f d logbuf =
      (case rspamd_task_log_metric_res env task lf of
         Inl fault \<Rightarrow> Inl fault
       | Inr var \<Rightarrow> Inr (log_variable_finish (lf\<lparr>lf_data := d\<rparr>) logbuf var))"
  shows "(\<exists>fault. \<forall>d logbuf. f d logbuf = Inl fault) \<or>
   (\<exists>var. \<forall>d logbuf. f d logbuf =
        Inr (if var = [] then logbuf else rspamd_task_log_write_var logbuf var d))"
proof (cases "rspamd_task_log_metric_res env task lf")
  case (Inl fault)
  show ?thesis
    by (rule disjI1, rule exI [of _ fault]) (simp add: assms Inl)
next
  case (Inr v)
  show ?thesis
    by (rule disjI2, rule exI [of _ v]) (simp add: assms Inr log_variable_finish_def)
qed

lemma shape_addr_list:
  fixes f :: "string option \<Rightarrow> string \<Rightarrow> c_fault + string"
  assumes "\<And>d logbuf. f d logbuf = rspamd_task_write_addr_list addrs n (lf\<lparr>lf_data := d\<rparr>) logbuf"
  shows "(\<exists>fault. \<forall>d logbuf. f d logbuf = Inl fault) \<or>
   (\<exists>var. \<forall>d logbuf. f d logbuf =
        Inr (if var = [] then logbuf else rspamd_task_log_write_var logbuf var d))"
proof (cases "write_addr_list_loop addrs (if n \<le> 0 then int (length addrs) else n) 0 []")
  case (Inl fault)
  show ?thesis
    by (rule disjI1, rule exI [of _ fault])
       (simp add: assms rspamd_task_write_addr_list_def Let_def Inl)
next
  case (Inr varbuf)
  show ?thesis
    by (rule disjI2, rule exI [of _ varbuf])
       (simp add: assms rspamd_task_write_addr_list_def Let_def Inr)
qed

lemma log_variable_shape:
  "(\<exists>fault. \<forall>d logbuf. rspamd_task_log_variable env task (lf\<lparr>lf_data := d\<rparr>) logbuf = Inl fault) \<or>
   (\<exists>var. \<forall>d logbuf. rspamd_task_log_variable env task (lf\<lparr>lf_data := d\<rparr>) logbuf =
        Inr (if var = [] then logbuf else rspamd_task_log_write_var logbuf var d))"
  (is "?P (\<lambda>d logbuf. rspamd_task_log_variable env task (lf\<lparr>lf_data := d\<rparr>) logbuf)")
proof (cases "lf_type lf")
  case RSPAMD_LOG_STRING
  then show ?thesis
    by (intro shape_metric [where lf = lf and env = env and task = task])
       (simp add: rspamd_task_log_variable_def metric_res_data)
next
  case RSPAMD_LOG_LUA
  then show ?thesis
    by (intro shape_metric [where lf = lf and env = env and task = task])
       (simp add: rspamd_task_log_variable_def metric_res_data)
next
  case RSPAMD_LOG_MID
  then show ?thesis
    by (intro shape_finish [where lf = lf and v = "string_or_undef (message_id task)"])
       (simp add: rspamd_task_log_variable_def)
next
  case RSPAMD_LOG_QID
  then show ?thesis
    by (intro shape_finish [where lf = lf and v = "string_or_undef (queue_id task)"])
       (simp add: rspamd_task_log_variable_def)
next
  case RSPAMD_LOG_USER
  then show ?thesis
    by (intro shape_finish [where lf = lf and v = "string_or_undef (user task)"])
       (simp add: rspamd_task_log_variable_def)
next
  case RSPAMD_LOG_ISSPAM
  then show ?thesis
    by (intro shape_metric [where lf = lf and env = env and task = task])
       (simp add: rspamd_task_log_variable_def metric_res_data)
next
  case RSPAMD_LOG_ACTION
  then show ?thesis
    by (intro shape_metric [where lf = lf and env = env and task = task])
       (simp add: rspamd_task_log_variable_def metric_res_data)
next
  case RSPAMD_LOG_SCORES
  then show ?thesis
    by (intro shape_metric [where lf = lf and env = env and task = task])
       (simp add: rspamd_task_log_variable_def metric_res_data)
next
  case RSPAMD_LOG_SYMBOLS
  then show ?thesis
    by (intro shape_metric [where lf = lf and env = env and task = task])
       (simp add: rspamd_task_log_variable_def metric_res_data)
next
  case RSPAMD_LOG_IP
  then show ?thesis
    by (intro shape_finish [where lf = lf and v = "case from_addr task of
               Some a \<Rightarrow> (if rspamd_ip_is_valid env a
                           then c_str (rspamd_inet_address_to_string env a) else ''undef'')
             | None \<Rightarrow> ''undef''"])
       (simp add: rspamd_task_log_variable_def)
next
  case RSPAMD_LOG_LEN
  then show ?thesis
    by (intro shape_finish [where lf = lf and v = "printf_unsigned (unat (wlen (msg task)))"])
       (simp add: rspamd_task_log_variable_def)
next
  case RSPAMD_LOG_DNS_REQ
  then show ?thesis
    by (intro shape_finish [where lf = lf and v = "printf_unsigned (unat (dns_requests task))"])
       (simp add: rspamd_task_log_variable_def)
next
  case RSPAMD_LOG_SMTP_FROM
  then show ?thesis
    by (intro shape_finish [where lf = lf and v = "case from_envelope task of
               Some a \<Rightarrow> (case addr a of Some s \<Rightarrow> s | None \<Rightarrow> [])
             | None \<Rightarrow> []"])
       (simp add: rspamd_task_log_variable_def)
next
  case t: RSPAMD_LOG_MIME_FROM
  show ?thesis
  proof (cases "from_mime task")
    case None
    with t show ?thesis
      by (intro shape_finish [where lf = lf and v = "[]"]) (simp add: rspamd_task_log_variable_def)
  next
    case (Some ialist)
    with t show ?thesis
      by (intro shape_ialist [where lf = lf and ialist = ialist and n = 1])
         (simp add: rspamd_task_log_variable_def)
  qed
next
  case t: RSPAMD_LOG_SMTP_RCPT
  show ?thesis
  proof (cases "rcpt_envelope task")
    case None
    with t show ?thesis
      by (intro shape_finish [where lf = lf and v = "[]"]) (simp add: rspamd_task_log_variable_def)
  next
    case (Some addrs)
    with t show ?thesis
      by (intro shape_addr_list [where lf = lf and addrs = addrs and n = 1])
         (simp add: rspamd_task_log_variable_def)
  qed
next
  case t: RSPAMD_LOG_MIME_RCPT
  show ?thesis
  proof (cases "rcpt_mime task")
    case None
    with t show ?thesis
      by (intro shape_finish [where lf = lf and v = "[]"]) (simp add: rspamd_task_log_variable_def)
  next
    case (Some ialist)
    with t show ?thesis
      by (intro shape_ialist [where lf = lf and ialist = ialist and n = 1])
         (simp add: rspamd_task_log_variable_def)
  qed
next
  case t: RSPAMD_LOG_SMTP_RCPTS
  show ?thesis
  proof (cases "rcpt_envelope task")
    case None
    with t show ?thesis
      by (intro shape_finish [where lf = lf and v = "[]"]) (simp add: rspamd_task_log_variable_def)
  next
    case (Some addrs)
    with t show ?thesis
      by (intro shape_addr_list [where lf = lf and addrs = addrs and n = "- 1"])
         (simp add: rspamd_task_log_variable_def)
  qed
next
  case t: RSPAMD_LOG_MIME_RCPTS
  show ?thesis
  proof (cases "rcpt_mime task")
    case None
    with t show ?thesis
      by (intro shape_finish [where lf = lf and v = "[]"]) (simp add: rspamd_task_log_variable_def)
  next
    case (Some ialist)
    with t show ?thesis
      by (intro shape_ialist [where lf = lf and ialist = ialist and n = "- 1"])
         (simp add: rspamd_task_log_variable_def)
  qed
next
  case t: RSPAMD_LOG_TIME_REAL
  show ?thesis
  proof (cases "cfg task")
    case None
    with t show ?thesis
      by (intro shape_fault [where fault = Null_Dereference]) (simp add: rspamd_task_log_variable_def)
  next
    case (Some c)
    with t show ?thesis
      by (intro shape_finish [where lf = lf and v = "c_str (rspamd_log_check_time env (time_real task)
            (rspamd_get_ticks env) (clock_res c))"])
         (simp add: rspamd_task_log_variable_def)
  qed
next
  case t: RSPAMD_LOG_TIME_VIRTUAL
  show ?thesis
  proof (cases "cfg task")
    case None
    with t show ?thesis
      by (intro shape_fault [where fault = Null_Dereference]) (simp add: rspamd_task_log_variable_def)
  next
    case (Some c)
    with t show ?thesis
      by (intro shape_finish [where lf = lf and v = "c_str (rspamd_log_check_time env (time_virtual task)
            (rspamd_get_virtual_ticks env) (clock_res c))"])
         (simp add: rspamd_task_log_variable_def)
  qed
qed


text \<open>
  The lemma above: for a task and a variable item, either the formatter faults whatever
  the template and the buffer are, or there is one value \<open>var\<close>, the resolved value of
  the item, such that for every content template and every log buffer the result is
  the buffer itself when \<open>var\<close> is empty, and the buffer extended by the template with
  \<open>var\<close> substituted otherwise. The items that the formatter resolves to the empty
  value without a fault append nothing, the literal text of their template included:
  \<^verbatim>\<open>SMTP_FROM\<close> with no envelope sender, the four metric items with no result of the
  default metric, and the recipient items on an absent list.
\<close>

lemma log_variable_no_sender:
  assumes "lf_type lf = RSPAMD_LOG_SMTP_FROM" and "from_envelope task = None"
  shows "rspamd_task_log_variable env task lf logbuf = Inr logbuf"
  using assms by (simp add: rspamd_task_log_variable_def log_variable_finish_def)

lemma log_variable_no_metric:
  assumes "lf_type lf = RSPAMD_LOG_ISSPAM \<or> lf_type lf = RSPAMD_LOG_ACTION \<or>
     lf_type lf = RSPAMD_LOG_SCORES \<or> lf_type lf = RSPAMD_LOG_SYMBOLS"
    and "results task DEFAULT_METRIC = None"
  shows "rspamd_task_log_variable env task lf logbuf = Inr logbuf"
proof -
  have "rspamd_task_log_metric_res env task lf = Inr []"
    using assms(2) by (simp add: rspamd_task_log_metric_res_def)
  with assms(1) show ?thesis
    by (auto simp: rspamd_task_log_variable_def log_variable_finish_def)
qed

lemma log_variable_no_list:
  assumes "lf_type lf = RSPAMD_LOG_MIME_FROM \<and> from_mime task = None \<or>
     (lf_type lf = RSPAMD_LOG_SMTP_RCPT \<or> lf_type lf = RSPAMD_LOG_SMTP_RCPTS) \<and>
       rcpt_envelope task = None \<or>
     (lf_type lf = RSPAMD_LOG_MIME_RCPT \<or> lf_type lf = RSPAMD_LOG_MIME_RCPTS) \<and>
       rcpt_mime task = None"
  shows "rspamd_task_log_variable env task lf logbuf = Inr logbuf"
  using assms by (auto simp: rspamd_task_log_variable_def log_variable_finish_def)

text \<open>
  A list that is present and empty. The writer of the MIME lists reads its elements
  through the checked accessor, and the writer of the envelope recipients, asked for
  all of them (\<^verbatim>\<open>SMTP_RCPTS\<close>), takes the length of the array as its limit: both
  append nothing. Asked for the first envelope recipient (\<^verbatim>\<open>SMTP_RCPT\<close>, limit 1), the
  writer reads element 0 of the empty array.
\<close>

lemma log_variable_empty_list:
  assumes "lf_type lf = RSPAMD_LOG_MIME_FROM \<and> from_mime task = Some [] \<or>
     lf_type lf = RSPAMD_LOG_SMTP_RCPTS \<and> rcpt_envelope task = Some [] \<or>
     (lf_type lf = RSPAMD_LOG_MIME_RCPT \<or> lf_type lf = RSPAMD_LOG_MIME_RCPTS) \<and>
       rcpt_mime task = Some []"
  shows "rspamd_task_log_variable env task lf logbuf = Inr logbuf"
  using assms
  by (auto simp: rspamd_task_log_variable_def rspamd_task_write_ialist_def
      rspamd_task_write_addr_list_def write_ialist_loop.simps [of "[]"]
      write_addr_list_loop.simps [of "[]"] internet_address_list_get_address_def Let_def
      max_log_elts_def)

lemma log_variable_first_recipient_of_none:
  assumes "lf_type lf = RSPAMD_LOG_SMTP_RCPT" and "rcpt_envelope task = Some []"
  shows "rspamd_task_log_variable env task lf logbuf = Inl (Index_Out_Of_Bounds 0 0)"
  using assms
  by (simp add: rspamd_task_log_variable_def rspamd_task_write_addr_list_def
      write_addr_list_loop.simps [of "[]"] g_ptr_array_index_def)

text \<open>
  The named instances on a fresh task, with the templates \<^verbatim>\<open>from: <$>, \<close> and
  \<^verbatim>\<open>(spam: $) \<close>: the buffer comes back as it was.
\<close>

lemma empty_value_examples:
  "rspamd_task_log_variable example_log_env example_task
     \<lparr>lf_type = RSPAMD_LOG_SMTP_FROM, lf_flags = {}, lf_data = Some ''from: <$>, ''\<rparr>
     ''id: <undef>, '' = Inr ''id: <undef>, '' \<and>
   rspamd_task_log_variable example_log_env example_task
     \<lparr>lf_type = RSPAMD_LOG_ISSPAM, lf_flags = {}, lf_data = Some ''(spam: $) ''\<rparr>
     ''id: <undef>, '' = Inr ''id: <undef>, ''"
  using log_variable_no_sender [of
      "\<lparr>lf_type = RSPAMD_LOG_SMTP_FROM, lf_flags = {}, lf_data = Some ''from: <$>, ''\<rparr>"
      example_task example_log_env "''id: <undef>, ''"]
    log_variable_no_metric [of
      "\<lparr>lf_type = RSPAMD_LOG_ISSPAM, lf_flags = {}, lf_data = Some ''(spam: $) ''\<rparr>"
      example_task example_log_env "''id: <undef>, ''"]
  by (simp add: example_task_def rspamd_task_new_def)

text \<open>With an envelope sender the same item appends its template around the address.\<close>

lemma smtp_from_template_example:
  "rspamd_task_log_variable example_log_env
     (example_task\<lparr>from_envelope := Some \<lparr>addr = Some ''a@example.org''\<rparr>\<rparr>)
     \<lparr>lf_type = RSPAMD_LOG_SMTP_FROM, lf_flags = {}, lf_data = Some ''from: <$>, ''\<rparr>
     ''id: <undef>, '' = Inr ''id: <undef>, from: <a@example.org>, ''"
  by code_simp

text \<open>
  Claim C10 on the code. The item \<^verbatim>\<open>SMTP_RCPT\<close> with the template \<^verbatim>\<open>rcpt: <$>, \<close>,
  on a task whose envelope recipients are an array that is present and empty: there
  is no first recipient, the value of the item is empty, and the claim has the
  formatter give the buffer back as it is. The code reads element 0 of the empty
  array, unchecked. On the same task the item \<^verbatim>\<open>SMTP_RCPTS\<close> gives the buffer back,
  and so does \<^verbatim>\<open>MIME_RCPT\<close> on a MIME recipient list that is present and empty.
\<close>

theorem first_recipient_of_empty_envelope:
  "rspamd_task_log_variable example_log_env (example_task\<lparr>rcpt_envelope := Some []\<rparr>)
     \<lparr>lf_type = RSPAMD_LOG_SMTP_RCPT, lf_flags = {}, lf_data = Some ''rcpt: <$>, ''\<rparr>
     ''id: <undef>, '' = Inl (Index_Out_Of_Bounds 0 0) \<and>
   rspamd_task_log_variable example_log_env (example_task\<lparr>rcpt_envelope := Some []\<rparr>)
     \<lparr>lf_type = RSPAMD_LOG_SMTP_RCPTS, lf_flags = {}, lf_data = Some ''rcpt: <$>, ''\<rparr>
     ''id: <undef>, '' = Inr ''id: <undef>, '' \<and>
   rspamd_task_log_variable example_log_env (example_task\<lparr>rcpt_mime := Some []\<rparr>)
     \<lparr>lf_type = RSPAMD_LOG_MIME_RCPT, lf_flags = {}, lf_data = Some ''rcpt: <$>, ''\<rparr>
     ''id: <undef>, '' = Inr ''id: <undef>, ''"
  by code_simp

end
